theory Spec2Isabelle
  imports Complex_Main
begin

section \<open>Data model\<close>

text \<open>
  The embedding follows \<^verbatim>\<open>src/utils/intrinsic_initializer.cc\<close>.

  A C++ \<^verbatim>\<open>double\<close> is a value of a type \<open>'d\<close> of which only the operations are
  used: \<open>+\<close>, \<open>-\<close>, \<open>*\<close>, \<open>/\<close>, unary minus, \<open>\<bar>_\<bar>\<close> (for \<^verbatim>\<open>fabs\<close>), \<open><\<close> and \<open>\<le>\<close>.
  The sort \<open>{plus,minus,times,uminus,inverse,abs,ord}\<close> carries no law at all, so nothing is
  assumed about rounding, infinities or NaN (in particular not that \<open>a \<le> b\<close> is the negation
  of \<open>b < a\<close>): every theorem below holds for the machine arithmetic as well as for the
  reals. \<open>a > b\<close> is \<open>b < a\<close> and \<open>a \<ge> b\<close> is \<open>b \<le> a\<close>, as in IEEE 754.

  Eigen vectors are tuples; a 3x3 matrix is the tuple of its rows.
\<close>

type_synonym 'd Vector2d = "'d \<times> 'd"
type_synonym 'd Vector3d = "'d \<times> 'd \<times> 'd"
type_synonym 'd Vector4d = "'d \<times> 'd \<times> 'd \<times> 'd"
type_synonym 'd Matrix3d = "'d Vector3d \<times> 'd Vector3d \<times> 'd Vector3d"

text \<open>\<^verbatim>\<open>theia::FeatureCorrespondence2D3D\<close>: an observed image point and its target point.\<close>

record 'd FeatureCorrespondence2D3D =
  feature :: "'d Vector2d"
  world_point :: "'d Vector3d"

text \<open>\<^verbatim>\<open>theia::RansacSummary\<close>; the code reads only \<^verbatim>\<open>inliers.size()\<close>.\<close>

record RansacSummary =
  inliers :: "int list"

datatype RansacType = RANSAC | PROSAC | LMED | EXHAUSTIVE

text \<open>The pose structs the three estimators fill in.\<close>

record 'd UncalibratedAbsolutePose =
  rotation :: "'d Matrix3d"
  position :: "'d Vector3d"
  focal_length :: "'d"

record 'd RadialDistUncalibratedAbsolutePose =
  rotation :: "'d Matrix3d"
  translation :: "'d Vector3d"
  focal_length :: "'d"
  radial_distortion :: "'d"

record 'd RadialDistUncalibratedAbsolutePoseMetaData =
  max_focal_length :: "'d"
  min_focal_length :: "'d"

record 'd CalibratedAbsolutePose =
  rotation :: "'d Matrix3d"
  position :: "'d Vector3d"

text \<open>
  \<^verbatim>\<open>theia::Camera\<close> with the double sphere model: the intrinsics array, indexed by
  \<^verbatim>\<open>DoubleSphereCameraModel::InternalParametersIndex\<close>, and the pose set through
  \<^verbatim>\<open>SetPosition\<close> and \<^verbatim>\<open>SetOrientationFromRotationMatrix\<close>.
\<close>

datatype InternalParametersIndex =
  FOCAL_LENGTH | ASPECT_RATIO | SKEW | PRINCIPAL_POINT_X | PRINCIPAL_POINT_Y | XI | ALPHA

record 'd Camera =
  intrinsics :: "InternalParametersIndex \<Rightarrow> 'd"
  cam_position :: "'d Vector3d"
  cam_orientation :: "'d Matrix3d"

text \<open>
  The objects of the caller that the initializers write through references:
  \<^verbatim>\<open>ransac_summary\<close>, \<^verbatim>\<open>rotation\<close>, \<^verbatim>\<open>position\<close>, \<^verbatim>\<open>focal_length\<close>, and
  \<^verbatim>\<open>radial_distortion\<close> for the radial initializer. A function takes their values at
  the call and returns their values at the return.
\<close>

record 'd caller_vars =
  ransac_summary :: RansacSummary
  rotation :: "'d Matrix3d"
  position :: "'d Vector3d"
  focal_length :: "'d"

record 'd radial_vars = "'d caller_vars" +
  radial_distortion :: "'d"

section \<open>Code outside the file\<close>

text \<open>
  The estimators and the camera model of TheiaSfM, Eigen's SVD and the C library are not
  part of the repository; they are parameters of the model, collected in one record.

  An estimator reads the RANSAC parameters (a type \<open>'p\<close> the initializers only pass on), the
  RANSAC type, the correspondences, for the radial estimator the meta data, and the
  summary object it is given; it returns its success flag, the pose and the summary it
  leaves behind. RANSAC draws random samples: the generator's state, of a type \<open>'g\<close>,
  goes in and comes out, so two runs on equal inputs may differ, and a state that comes
  back changed tells that an estimator has run.

  \<open>double_lit\<close> is the double a decimal literal denotes, \<open>double_of_int\<close> the conversion
  of an \<^verbatim>\<open>int\<close>, \<open>DBL_MAX\<close> is \<^verbatim>\<open>std::numeric_limits<double>::max()\<close>.
  \<open>JacobiSVD_V_col3\<close> maps the list of the rows of an n x 4 matrix to the fourth column of
  the matrix V of its thin singular value decomposition.
  \<open>DoubleSphereCamera\<close> is a \<^verbatim>\<open>theia::Camera\<close> after
  \<^verbatim>\<open>SetCameraIntrinsicsModelType(DOUBLE_SPHERE)\<close>; \<open>ProjectPoint\<close> returns the pixel
  (the depth it also returns is not used).
\<close>

record ('d, 'p, 'g) externals =
  EstimateUncalibratedAbsolutePose ::
    "'p \<Rightarrow> RansacType \<Rightarrow> 'd FeatureCorrespondence2D3D list \<Rightarrow> RansacSummary \<Rightarrow> 'g
      \<Rightarrow> bool \<times> 'd UncalibratedAbsolutePose \<times> RansacSummary \<times> 'g"
  EstimateRadialDistUncalibratedAbsolutePose ::
    "'p \<Rightarrow> RansacType \<Rightarrow> 'd FeatureCorrespondence2D3D list
      \<Rightarrow> 'd RadialDistUncalibratedAbsolutePoseMetaData \<Rightarrow> RansacSummary \<Rightarrow> 'g
      \<Rightarrow> bool \<times> 'd RadialDistUncalibratedAbsolutePose \<times> RansacSummary \<times> 'g"
  EstimateCalibratedAbsolutePose ::
    "'p \<Rightarrow> RansacType \<Rightarrow> 'd FeatureCorrespondence2D3D list \<Rightarrow> RansacSummary \<Rightarrow> 'g
      \<Rightarrow> bool \<times> 'd CalibratedAbsolutePose \<times> RansacSummary \<times> 'g"
  DoubleSphereCamera :: "'d Camera"
  PixelToNormalizedCoordinates :: "'d Camera \<Rightarrow> 'd Vector2d \<Rightarrow> 'd Vector3d"
  ProjectPoint :: "'d Camera \<Rightarrow> 'd Vector4d \<Rightarrow> 'd Vector2d"
  JacobiSVD_V_col3 :: "'d Vector4d list \<Rightarrow> 'd Vector4d"
  sqrt_d :: "'d \<Rightarrow> 'd"
  hypot_d :: "'d \<Rightarrow> 'd \<Rightarrow> 'd"
  double_lit :: "real \<Rightarrow> 'd"
  double_of_int :: "int \<Rightarrow> 'd"
  DBL_MAX :: "'d"

section \<open>Eigen expressions\<close>

definition transpose3 :: "'d Matrix3d \<Rightarrow> 'd Matrix3d" where
  "transpose3 M =
     (case M of ((a, b, c), (d, e, f), (g, h, i)) \<Rightarrow> ((a, d, g), (b, e, h), (c, f, i)))"

definition uminus3 :: "'d::uminus Matrix3d \<Rightarrow> 'd Matrix3d" where
  "uminus3 M =
     (case M of ((a, b, c), (d, e, f), (g, h, i)) \<Rightarrow>
        ((- a, - b, - c), (- d, - e, - f), (- g, - h, - i)))"

text \<open>Matrix times vector: each coefficient is the sum of the three products of a row.\<close>

definition mat_vec3 :: "'d::{plus,times} Matrix3d \<Rightarrow> 'd Vector3d \<Rightarrow> 'd Vector3d" where
  "mat_vec3 M v =
     (case (M, v) of (((a, b, c), (d, e, f), (g, h, i)), (x, y, z)) \<Rightarrow>
        (a * x + b * y + c * z, d * x + e * y + f * z, g * x + h * y + i * z))"

text \<open>\<^verbatim>\<open>hnormalized()\<close> divides by the last coefficient and drops it.\<close>

definition hnormalized :: "'d::inverse Vector3d \<Rightarrow> 'd Vector2d" where
  "hnormalized v = (case v of (x, y, z) \<Rightarrow> (x / z, y / z))"

definition homogeneous :: "('d, 'p, 'g) externals \<Rightarrow> 'd Vector3d \<Rightarrow> 'd Vector4d" where
  "homogeneous E v = (case v of (x, y, z) \<Rightarrow> (x, y, z, double_lit E 1))"

definition squaredNorm :: "'d::{plus,times} Vector2d \<Rightarrow> 'd" where
  "squaredNorm v = (case v of (x, y) \<Rightarrow> x * x + y * y)"

definition minus2 :: "'d::minus Vector2d \<Rightarrow> 'd Vector2d \<Rightarrow> 'd Vector2d" where
  "minus2 u v = (fst u - fst v, snd u - snd v)"

section \<open>initialize_pinhole_camera\<close>

text \<open>
  Lines 8 to 30. The two lines written to \<^verbatim>\<open>std::cout\<close> are not part of the model (nor
  are those of the other two functions); \<open>verbose\<close> is kept as an argument.
  The result is the returned flag, the caller's objects and the generator's state.
\<close>

definition initialize_pinhole_camera ::
  "('d, 'p, 'g) externals \<Rightarrow> 'd FeatureCorrespondence2D3D list \<Rightarrow> 'p \<Rightarrow> bool
    \<Rightarrow> 'd caller_vars \<Rightarrow> 'g \<Rightarrow> bool \<times> 'd caller_vars \<times> 'g" where
  "initialize_pinhole_camera E correspondences ransac_params verbose vars g =
     (case EstimateUncalibratedAbsolutePose E ransac_params RANSAC correspondences
             (ransac_summary vars) g of
        (success, pose_linear, summary, g') \<Rightarrow>
          let vars = vars\<lparr>ransac_summary := summary\<rparr>;
              vars = vars\<lparr>rotation := UncalibratedAbsolutePose.rotation pose_linear\<rparr>;
              vars = vars\<lparr>position := UncalibratedAbsolutePose.position pose_linear\<rparr>;
              vars = vars\<lparr>focal_length := UncalibratedAbsolutePose.focal_length pose_linear\<rparr>
          in if length (inliers (ransac_summary vars)) < 10 then (False, vars, g')
             else (success, vars, g'))"

section \<open>initialize_radial_undistortion_camera\<close>

text \<open>Lines 44 and 45: the focal length window handed to the estimator.\<close>

definition radial_meta_data ::
  "('d::{plus,minus,times}, 'p, 'g) externals \<Rightarrow> int
    \<Rightarrow> 'd RadialDistUncalibratedAbsolutePoseMetaData" where
  "radial_meta_data E img_cols =
     \<lparr>max_focal_length = double_lit E 0.5 * double_of_int E img_cols + double_lit E 150,
      min_focal_length = double_lit E 0.5 * double_of_int E img_cols - double_lit E 150\<rparr>"

text \<open>Lines 32 to 65.\<close>

definition initialize_radial_undistortion_camera ::
  "('d::{plus,minus,times,uminus}, 'p, 'g) externals \<Rightarrow> 'd FeatureCorrespondence2D3D list
    \<Rightarrow> 'p \<Rightarrow> int \<Rightarrow> bool \<Rightarrow> 'd radial_vars \<Rightarrow> 'g \<Rightarrow> bool \<times> 'd radial_vars \<times> 'g" where
  "initialize_radial_undistortion_camera E correspondences ransac_params img_cols verbose
       vars g =
     (if length correspondences \<le> 4 then (False, vars, g)
      else
        let meta_data = radial_meta_data E img_cols in
        case EstimateRadialDistUncalibratedAbsolutePose E ransac_params RANSAC
               correspondences meta_data (ransac_summary vars) g of
          (success, pose_division_undist, summary, g') \<Rightarrow>
            let vars = vars\<lparr>ransac_summary := summary\<rparr>;
                vars = vars\<lparr>rotation :=
                  RadialDistUncalibratedAbsolutePose.rotation pose_division_undist\<rparr>;
                vars = vars\<lparr>position :=
                  mat_vec3
                    (uminus3 (transpose3
                       (RadialDistUncalibratedAbsolutePose.rotation pose_division_undist)))
                    (translation pose_division_undist)\<rparr>;
                vars = vars\<lparr>radial_distortion :=
                  RadialDistUncalibratedAbsolutePose.radial_distortion pose_division_undist\<rparr>;
                vars = vars\<lparr>focal_length :=
                  RadialDistUncalibratedAbsolutePose.focal_length pose_division_undist\<rparr>
            in if length (inliers (ransac_summary vars)) < 10 then (False, vars, g')
               else (success, vars, g'))"

section \<open>initialize_doublesphere_model\<close>

text \<open>
  Lines 69 to 222. The state of the call: the caller's objects (the four written through
  references and the correspondences, which the function reads through a reference), the
  locals \<^verbatim>\<open>gamma0\<close>, \<^verbatim>\<open>min_reproj_error\<close> and \<^verbatim>\<open>success\<close> that live across the rows, and
  the generator's state.
\<close>

record ('d, 'g) ds_state = "'d caller_vars" +
  correspondences :: "'d FeatureCorrespondence2D3D list"
  gamma0 :: "'d"
  min_reproj_error :: "'d"
  success :: bool
  rng :: "'g"

text \<open>
  Of \<^verbatim>\<open>cv::aruco::CharucoBoard\<close> the code reads \<^verbatim>\<open>getChessboardSize()\<close>, whose
  \<^verbatim>\<open>int\<close> width and height it converts to \<^verbatim>\<open>size_t\<close>. The sizes are natural numbers here,
  and the row and column counters and the corner ids are computed without wrap-around:
  a board whose corner ids exceed the range of \<^verbatim>\<open>int\<close> is outside the model.
\<close>

record CharucoBoard =
  chessboard_width :: nat
  chessboard_height :: nat

text \<open>
  \<^verbatim>\<open>correspondences[i]\<close> for an \<open>i\<close> beyond the vector's size is undefined behaviour; the
  model returns this error there.
\<close>

datatype error = OutOfRange

text \<open>Lines 79 to 82: a later occurrence of an id replaces an earlier one.\<close>

definition id_to_corner_loop ::
  "int list \<Rightarrow> 'd FeatureCorrespondence2D3D list \<Rightarrow> (int \<rightharpoonup> 'd Vector2d)" where
  "id_to_corner_loop charuco_ids cs =
     fold (\<lambda>i id_to_corner. id_to_corner(charuco_ids ! i \<mapsto> feature (cs ! i)))
       [0..<length charuco_ids] Map.empty"

definition build_id_to_corner ::
  "int list \<Rightarrow> 'd FeatureCorrespondence2D3D list \<Rightarrow> error + (int \<rightharpoonup> 'd Vector2d)" where
  "build_id_to_corner charuco_ids cs =
     (if length charuco_ids \<le> length cs then Inr (id_to_corner_loop charuco_ids cs)
      else Inl OutOfRange)"

text \<open>Lines 98 to 109: the points of the observed corners of row \<open>r\<close>.\<close>

definition row_points ::
  "('d::{plus,times,uminus}, 'p, 'g) externals \<Rightarrow> (int \<rightharpoonup> 'd Vector2d) \<Rightarrow> nat \<Rightarrow> nat
    \<Rightarrow> 'd Vector4d list" where
  "row_points E id_to_corner target_cols r =
     fold (\<lambda>c P.
             let corner_id = int (r * target_cols + c) in
             case id_to_corner corner_id of
               Some imagePoint \<Rightarrow>
                 P @ [(fst imagePoint, snd imagePoint, double_lit E 0.5,
                       (- double_lit E 0.5) *
                         (fst imagePoint * fst imagePoint + snd imagePoint * snd imagePoint))]
             | None \<Rightarrow> P)
          [0..<target_cols] []"

definition MIN_CORNERS :: nat where
  "MIN_CORNERS = 8"

text \<open>
  Lines 129 to 148, for a row that has passed the test of line 112: \<open>None\<close> at either
  \<^verbatim>\<open>continue\<close>, the row's \<^verbatim>\<open>gamma\<close> otherwise.
\<close>

definition row_gamma ::
  "('d::{plus,minus,times,inverse,abs,ord}, 'p, 'g) externals \<Rightarrow> 'd Vector4d list \<Rightarrow> 'd option"
  where
  "row_gamma E P =
     (case JacobiSVD_V_col3 E P of (C0, C1, C2, C3) \<Rightarrow>
        let t = C0 * C0 + C1 * C1 + C2 * C3 in
        if t < double_lit E 0 then None
        else
          let d = sqrt_d E (double_lit E 1 / t);
              nx = C0 * d;
              ny = C1 * d
          in if hypot_d E nx ny > double_lit E 0.95 then None
             else
               let nz = sqrt_d E (double_lit E 1 - nx * nx - ny * ny);
                   gamma = \<bar>C2 * d / nz\<bar>
               in Some gamma)"

text \<open>Lines 84 to 86 and 151 to 167: the camera of the intrinsic guess.\<close>

definition guess_camera ::
  "('d::{minus,times,inverse}, 'p, 'g) externals \<Rightarrow> int \<Rightarrow> int \<Rightarrow> 'd \<Rightarrow> 'd Camera" where
  "guess_camera E img_cols img_rows gamma =
     (let xi = double_lit E 1;
          cu = double_of_int E img_cols / double_lit E 2 - double_lit E 0.5;
          cv = double_of_int E img_rows / double_lit E 2 - double_lit E 0.5;
          cam = DoubleSphereCamera E
      in cam\<lparr>intrinsics := (intrinsics cam)
           (FOCAL_LENGTH := double_lit E 0.5 * gamma,
            PRINCIPAL_POINT_X := cu,
            PRINCIPAL_POINT_Y := cv,
            ASPECT_RATIO := double_lit E 1,
            XI := double_lit E 0.5 * xi,
            ALPHA := double_lit E 0)\<rparr>)"

text \<open>
  Lines 172 to 175: the loop over the elements of \<^verbatim>\<open>correspondences_new\<close>, each
  overwritten in place.
\<close>

definition undistort ::
  "('d::inverse, 'p, 'g) externals \<Rightarrow> 'd Camera \<Rightarrow> 'd FeatureCorrespondence2D3D list
    \<Rightarrow> 'd FeatureCorrespondence2D3D list" where
  "undistort E cam correspondences_new =
     fold (\<lambda>i cs. cs[i := (cs ! i)\<lparr>feature :=
                     hnormalized (PixelToNormalizedCoordinates E cam (feature (cs ! i)))\<rparr>])
          [0..<length correspondences_new] correspondences_new"

text \<open>
  Lines 184 to 195: the accumulated squared error and the number of reprojections inside
  the image. \<open>i\<close> stays below the size of both vectors, \<^verbatim>\<open>correspondences_new\<close> being a
  copy of \<^verbatim>\<open>correspondences\<close>.
\<close>

definition reproject ::
  "('d::{plus,minus,times,ord}, 'p, 'g) externals \<Rightarrow> 'd Camera \<Rightarrow> int \<Rightarrow> int
    \<Rightarrow> 'd FeatureCorrespondence2D3D list \<Rightarrow> 'd FeatureCorrespondence2D3D list
    \<Rightarrow> 'd \<times> nat" where
  "reproject E cam img_cols img_rows cs correspondences_new =
     fold (\<lambda>i (repro_error, in_image).
             let pixel = ProjectPoint E cam
                           (homogeneous E (world_point (correspondences_new ! i)))
             in if fst pixel \<ge> double_lit E 0 \<and> snd pixel \<ge> double_lit E 0 \<and>
                   fst pixel < double_of_int E img_cols \<and>
                   snd pixel < double_of_int E img_rows
                then (repro_error + squaredNorm (minus2 pixel (feature (cs ! i))),
                      in_image + 1)
                else (repro_error, in_image))
          [0..<length correspondences_new] (double_lit E 0, 0)"

text \<open>Lines 200 to 216: the row's candidate against the best one so far.\<close>

definition update_best ::
  "('d::{times,inverse,ord}, 'p, 'g) externals \<Rightarrow> 'd \<Rightarrow> 'd CalibratedAbsolutePose \<Rightarrow> 'd \<Rightarrow> nat
    \<Rightarrow> ('d, 'g) ds_state \<Rightarrow> ('d, 'g) ds_state" where
  "update_best E gamma pose repro_error in_image st =
     (if in_image > MIN_CORNERS then
        let avg_reproj_error = repro_error / double_of_int E (int in_image) in
        if avg_reproj_error < min_reproj_error st \<and> avg_reproj_error < double_lit E 1000
        then
          let st = st\<lparr>min_reproj_error := avg_reproj_error\<rparr>;
              st = st\<lparr>gamma0 := gamma\<rparr>;
              st = st\<lparr>success := True\<rparr>;
              st = st\<lparr>rotation := CalibratedAbsolutePose.rotation pose\<rparr>;
              st = st\<lparr>position := CalibratedAbsolutePose.position pose\<rparr>;
              st = st\<lparr>focal_length := double_lit E 0.5 * gamma0 st\<rparr>
          in st
        else st
      else st)"

text \<open>
  Lines 169 to 195 for a row with its \<^verbatim>\<open>gamma\<close>: the copy, its undistortion, the
  estimator's run (its flag is dropped, its summary replaces the caller's) and the
  reprojection.
\<close>

definition estimate_row ::
  "('d::{plus,minus,times,inverse,ord}, 'p, 'g) externals \<Rightarrow> 'p \<Rightarrow> int \<Rightarrow> int \<Rightarrow> 'd
    \<Rightarrow> ('d, 'g) ds_state \<Rightarrow> ('d CalibratedAbsolutePose \<times> 'd \<times> nat) \<times> ('d, 'g) ds_state" where
  "estimate_row E ransac_params img_cols img_rows gamma st =
     (let cam = guess_camera E img_cols img_rows gamma;
          correspondences_new = correspondences st;
          correspondences_new = undistort E cam correspondences_new
      in case EstimateCalibratedAbsolutePose E ransac_params RANSAC correspondences_new
                (ransac_summary st) (rng st) of
           (ok, pose, summary, g') \<Rightarrow>
             let st = st\<lparr>ransac_summary := summary, rng := g'\<rparr>;
                 cam = cam\<lparr>cam_position := CalibratedAbsolutePose.position pose\<rparr>;
                 cam = cam\<lparr>cam_orientation := CalibratedAbsolutePose.rotation pose\<rparr>;
                 (repro_error, in_image) =
                   reproject E cam img_cols img_rows (correspondences st) correspondences_new
             in ((pose, repro_error, in_image), st))"

text \<open>Lines 98 to 217: the body of the loop over the rows.\<close>

definition row_body ::
  "('d::{plus,minus,times,uminus,inverse,abs,ord}, 'p, 'g) externals \<Rightarrow> 'p \<Rightarrow> int \<Rightarrow> int
    \<Rightarrow> (int \<rightharpoonup> 'd Vector2d) \<Rightarrow> nat \<Rightarrow> nat \<Rightarrow> ('d, 'g) ds_state \<Rightarrow> ('d, 'g) ds_state" where
  "row_body E ransac_params img_cols img_rows id_to_corner target_cols r st =
     (let P = row_points E id_to_corner target_cols r in
      if length P > MIN_CORNERS then
        case row_gamma E P of
          None \<Rightarrow> st
        | Some gamma \<Rightarrow>
            (case estimate_row E ransac_params img_cols img_rows gamma st of
               ((pose, repro_error, in_image), st) \<Rightarrow>
                 update_best E gamma pose repro_error in_image st)
      else st)"

text \<open>Lines 97 to 218: the rows \<open>rs\<close> in turn.\<close>

definition rows_loop ::
  "('d::{plus,minus,times,uminus,inverse,abs,ord}, 'p, 'g) externals \<Rightarrow> 'p \<Rightarrow> int \<Rightarrow> int
    \<Rightarrow> (int \<rightharpoonup> 'd Vector2d) \<Rightarrow> nat \<Rightarrow> nat list \<Rightarrow> ('d, 'g) ds_state \<Rightarrow> ('d, 'g) ds_state" where
  "rows_loop E ransac_params img_cols img_rows id_to_corner target_cols rs st =
     fold (row_body E ransac_params img_cols img_rows id_to_corner target_cols) rs st"

text \<open>The state at line 97: the caller's objects and the locals as initialised.\<close>

definition initial_state ::
  "('d, 'p, 'g) externals \<Rightarrow> 'd FeatureCorrespondence2D3D list \<Rightarrow> 'd caller_vars \<Rightarrow> 'g
    \<Rightarrow> ('d, 'g) ds_state" where
  "initial_state E cs vars g =
     \<lparr>ransac_summary = ransac_summary vars, rotation = rotation vars,
      position = position vars, focal_length = focal_length vars,
      correspondences = cs, gamma0 = double_lit E 0, min_reproj_error = DBL_MAX E,
      success = False, rng = g\<rparr>"

text \<open>
  The whole function: the returned flag and the state at the return, or the error of the
  first loop.
\<close>

definition initialize_doublesphere_model ::
  "('d::{plus,minus,times,uminus,inverse,abs,ord}, 'p, 'g) externals
    \<Rightarrow> 'd FeatureCorrespondence2D3D list \<Rightarrow> int list \<Rightarrow> CharucoBoard \<Rightarrow> 'p \<Rightarrow> int \<Rightarrow> int
    \<Rightarrow> bool \<Rightarrow> 'd caller_vars \<Rightarrow> 'g \<Rightarrow> error + bool \<times> ('d, 'g) ds_state" where
  "initialize_doublesphere_model E cs charuco_ids charucoboard ransac_params img_cols
       img_rows verbose vars g =
     (case build_id_to_corner charuco_ids cs of
        Inl e \<Rightarrow> Inl e
      | Inr id_to_corner \<Rightarrow>
          let target_cols = chessboard_width charucoboard;
              target_rows = chessboard_height charucoboard;
              st = rows_loop E ransac_params img_cols img_rows id_to_corner target_cols
                     [0..<target_rows] (initial_state E cs vars g)
          in if length (inliers (ransac_summary st)) < 10 then Inr (False, st)
             else Inr (success st, st))"

section \<open>Notions for the statements\<close>

text \<open>The columns of row \<open>r\<close> whose corner was observed.\<close>

definition observed_cols :: "(int \<rightharpoonup> 'd Vector2d) \<Rightarrow> nat \<Rightarrow> nat \<Rightarrow> nat list" where
  "observed_cols id_to_corner target_cols r =
     filter (\<lambda>c. id_to_corner (int (r * target_cols + c)) \<noteq> None) [0..<target_cols]"

text \<open>The tests of lines 134 and 142 on the points \<open>P\<close> of a row.\<close>

definition no_real_solution ::
  "('d::{plus,times,ord}, 'p, 'g) externals \<Rightarrow> 'd Vector4d list \<Rightarrow> bool" where
  "no_real_solution E P =
     (case JacobiSVD_V_col3 E P of (C0, C1, C2, C3) \<Rightarrow>
        C0 * C0 + C1 * C1 + C2 * C3 < double_lit E 0)"

definition near_radial ::
  "('d::{plus,times,inverse,ord}, 'p, 'g) externals \<Rightarrow> 'd Vector4d list \<Rightarrow> bool" where
  "near_radial E P =
     (case JacobiSVD_V_col3 E P of (C0, C1, C2, C3) \<Rightarrow>
        let d = sqrt_d E (double_lit E 1 / (C0 * C0 + C1 * C1 + C2 * C3))
        in hypot_d E (C0 * d) (C1 * d) > double_lit E 0.95)"

text \<open>
  The candidate of row \<open>r\<close> run from the state \<open>st\<close>, when the row reaches line 201: its
  \<^verbatim>\<open>gamma\<close>, the estimated pose and the mean reprojection error.
\<close>

definition row_candidate ::
  "('d::{plus,minus,times,uminus,inverse,abs,ord}, 'p, 'g) externals \<Rightarrow> 'p \<Rightarrow> int \<Rightarrow> int
    \<Rightarrow> (int \<rightharpoonup> 'd Vector2d) \<Rightarrow> nat \<Rightarrow> nat \<Rightarrow> ('d, 'g) ds_state
    \<Rightarrow> ('d \<times> 'd CalibratedAbsolutePose \<times> 'd) option" where
  "row_candidate E ransac_params img_cols img_rows id_to_corner target_cols r st =
     (let P = row_points E id_to_corner target_cols r in
      if length P > MIN_CORNERS then
        case row_gamma E P of
          None \<Rightarrow> None
        | Some gamma \<Rightarrow>
            (case estimate_row E ransac_params img_cols img_rows gamma st of
               ((pose, repro_error, in_image), st') \<Rightarrow>
                 if in_image > MIN_CORNERS
                 then Some (gamma, pose, repro_error / double_of_int E (int in_image))
                 else None)
      else None)"

text \<open>
  The candidates of the rows \<open>rs\<close>, in the order of the loop, each from the state its row
  starts in.
\<close>

fun candidates ::
  "('d::{plus,minus,times,uminus,inverse,abs,ord}, 'p, 'g) externals \<Rightarrow> 'p \<Rightarrow> int \<Rightarrow> int
    \<Rightarrow> (int \<rightharpoonup> 'd Vector2d) \<Rightarrow> nat \<Rightarrow> nat list \<Rightarrow> ('d, 'g) ds_state
    \<Rightarrow> ('d \<times> 'd CalibratedAbsolutePose \<times> 'd) list" where
  "candidates E ransac_params img_cols img_rows id_to_corner target_cols [] st = []"
| "candidates E ransac_params img_cols img_rows id_to_corner target_cols (r # rs) st =
     (case row_candidate E ransac_params img_cols img_rows id_to_corner target_cols r st of
        None \<Rightarrow> []
      | Some c \<Rightarrow> [c])
     @ candidates E ransac_params img_cols img_rows id_to_corner target_cols rs
         (row_body E ransac_params img_cols img_rows id_to_corner target_cols r st)"

text \<open>
  A row is attempted when it reaches the estimator's run of line 178: more than
  \<open>MIN_CORNERS\<close> points and neither \<^verbatim>\<open>continue\<close>. The last attempted row of a board of
  \<open>target_rows\<close> rows is the one whose run of the estimator is the most recent at line 219.
\<close>

definition attempted ::
  "('d::{plus,minus,times,uminus,inverse,abs,ord}, 'p, 'g) externals
    \<Rightarrow> (int \<rightharpoonup> 'd Vector2d) \<Rightarrow> nat \<Rightarrow> nat \<Rightarrow> bool" where
  "attempted E id_to_corner target_cols r =
     (MIN_CORNERS < length (row_points E id_to_corner target_cols r) \<and>
      row_gamma E (row_points E id_to_corner target_cols r) \<noteq> None)"

definition last_attempted ::
  "('d::{plus,minus,times,uminus,inverse,abs,ord}, 'p, 'g) externals
    \<Rightarrow> (int \<rightharpoonup> 'd Vector2d) \<Rightarrow> nat \<Rightarrow> nat \<Rightarrow> nat \<Rightarrow> bool" where
  "last_attempted E id_to_corner target_cols target_rows k =
     (k < target_rows \<and> attempted E id_to_corner target_cols k \<and>
      (\<forall>j \<in> set [Suc k..<target_rows]. \<not> attempted E id_to_corner target_cols j))"

text \<open>
  The best candidate so far: what line 203 compares and what lines 204 to 209 write.
\<close>

definition best ::
  "('d, 'g) ds_state \<Rightarrow> 'd \<times> 'd \<times> bool \<times> 'd Matrix3d \<times> 'd Vector3d \<times> 'd" where
  "best st =
     (min_reproj_error st, gamma0 st, success st, rotation st, position st, focal_length st)"

section \<open>A concrete instance\<close>

text \<open>
  An instance over the reals, on which the theorems are run. The estimators read the
  generator's state as a script: each run takes the next pair, the number of inliers it
  reports and the first coordinate of the position (or translation) it estimates; on the
  empty script it fails and leaves the summary as it is. The camera shifts a point by the
  position, and the singular vector is read off the first point of the row.
\<close>

definition I3 :: "real Matrix3d" where
  "I3 = ((1, 0, 0), (0, 1, 0), (0, 0, 1))"

definition Rz :: "real Matrix3d" where
  "Rz = ((0, - 1, 0), (1, 0, 0), (0, 0, 1))"

definition stub_summary :: "nat \<Rightarrow> RansacSummary" where
  "stub_summary n = \<lparr>inliers = map int [0..<n]\<rparr>"

definition stub_uncalibrated ::
  "unit \<Rightarrow> RansacType \<Rightarrow> real FeatureCorrespondence2D3D list \<Rightarrow> RansacSummary
    \<Rightarrow> (nat \<times> real) list
    \<Rightarrow> bool \<times> real UncalibratedAbsolutePose \<times> RansacSummary \<times> (nat \<times> real) list" where
  "stub_uncalibrated p ty cs summary g =
     (case g of
        [] \<Rightarrow>
          (False,
           \<lparr>UncalibratedAbsolutePose.rotation = I3,
            UncalibratedAbsolutePose.position = (0, 0, 0),
            UncalibratedAbsolutePose.focal_length = 0\<rparr>,
           summary, [])
      | (n, x) # g' \<Rightarrow>
          (True,
           \<lparr>UncalibratedAbsolutePose.rotation = Rz,
            UncalibratedAbsolutePose.position = (x, 0, 0),
            UncalibratedAbsolutePose.focal_length = 800\<rparr>,
           stub_summary n, g'))"

definition stub_radial ::
  "unit \<Rightarrow> RansacType \<Rightarrow> real FeatureCorrespondence2D3D list
    \<Rightarrow> real RadialDistUncalibratedAbsolutePoseMetaData \<Rightarrow> RansacSummary
    \<Rightarrow> (nat \<times> real) list
    \<Rightarrow> bool \<times> real RadialDistUncalibratedAbsolutePose \<times> RansacSummary \<times> (nat \<times> real) list" where
  "stub_radial p ty cs meta summary g =
     (case g of
        [] \<Rightarrow> (False, \<lparr>RadialDistUncalibratedAbsolutePose.rotation = I3, translation = (0, 0, 0),
                      RadialDistUncalibratedAbsolutePose.focal_length = 0,
                      RadialDistUncalibratedAbsolutePose.radial_distortion = 0\<rparr>, summary, [])
      | (n, x) # g' \<Rightarrow>
          (True, \<lparr>RadialDistUncalibratedAbsolutePose.rotation = Rz, translation = (x, 2, 3),
                  RadialDistUncalibratedAbsolutePose.focal_length = min_focal_length meta,
                  RadialDistUncalibratedAbsolutePose.radial_distortion = - 1 / 4\<rparr>,
           stub_summary n, g'))"

definition stub_calibrated ::
  "unit \<Rightarrow> RansacType \<Rightarrow> real FeatureCorrespondence2D3D list \<Rightarrow> RansacSummary
    \<Rightarrow> (nat \<times> real) list
    \<Rightarrow> bool \<times> real CalibratedAbsolutePose \<times> RansacSummary \<times> (nat \<times> real) list" where
  "stub_calibrated p ty cs summary g =
     (case g of
        [] \<Rightarrow>
          (False,
           \<lparr>CalibratedAbsolutePose.rotation = I3,
            CalibratedAbsolutePose.position = (0, 0, 0)\<rparr>,
           summary, [])
      | (n, x) # g' \<Rightarrow>
          (True,
           \<lparr>CalibratedAbsolutePose.rotation = I3,
            CalibratedAbsolutePose.position = (x, 0, 0)\<rparr>,
           stub_summary n, g'))"

definition stub_svd :: "real Vector4d list \<Rightarrow> real Vector4d" where
  "stub_svd P =
     (case P of
        [] \<Rightarrow> (0, 0, 0, 0)
      | (x, y, a, b) # _ \<Rightarrow>
          if x < 0 then (0, 0, 1, - 1)
          else if y < 0 then (1, 0, 0, 0)
          else (0, 0, 1 + y, 1 / (1 + y)))"

definition stub_externals :: "(real, unit, (nat \<times> real) list) externals" where
  "stub_externals =
     \<lparr>EstimateUncalibratedAbsolutePose = stub_uncalibrated,
      EstimateRadialDistUncalibratedAbsolutePose = stub_radial,
      EstimateCalibratedAbsolutePose = stub_calibrated,
      DoubleSphereCamera =
        \<lparr>intrinsics = (\<lambda>_. 0), cam_position = (0, 0, 0), cam_orientation = I3\<rparr>,
      PixelToNormalizedCoordinates =
        (\<lambda>cam (x, y). (x - intrinsics cam PRINCIPAL_POINT_X,
                        y - intrinsics cam PRINCIPAL_POINT_Y, 1)),
      ProjectPoint =
        (\<lambda>cam (x, y, z, w). (x + fst (cam_position cam), y + fst (snd (cam_position cam)))),
      JacobiSVD_V_col3 = stub_svd,
      sqrt_d = sqrt,
      hypot_d = (\<lambda>x y. sqrt (x * x + y * y)),
      double_lit = (\<lambda>x. x),
      double_of_int = real_of_int,
      DBL_MAX = 2 ^ 1024 - 2 ^ 971\<rparr>"

definition vars0 :: "real caller_vars" where
  "vars0 = \<lparr>ransac_summary = stub_summary 0, rotation = I3, position = (7, 7, 7),
            focal_length = 7\<rparr>"

definition rvars0 :: "real radial_vars" where
  "rvars0 = \<lparr>ransac_summary = stub_summary 0, rotation = I3, position = (7, 7, 7),
             focal_length = 7, radial_distortion = 7\<rparr>"

definition grid :: "nat \<Rightarrow> nat \<Rightarrow> real FeatureCorrespondence2D3D" where
  "grid r c = \<lparr>feature = (real c, real r), world_point = (real c, real r, 0)\<rparr>"

text \<open>The poses the scripted estimators return, and five correspondences.\<close>

definition stub_pose :: "real \<Rightarrow> real UncalibratedAbsolutePose" where
  "stub_pose x =
     \<lparr>UncalibratedAbsolutePose.rotation = Rz, UncalibratedAbsolutePose.position = (x, 0, 0),
      UncalibratedAbsolutePose.focal_length = 800\<rparr>"

definition stub_radial_pose :: "real \<Rightarrow> real \<Rightarrow> real RadialDistUncalibratedAbsolutePose" where
  "stub_radial_pose x f =
     \<lparr>RadialDistUncalibratedAbsolutePose.rotation = Rz, translation = (x, 2, 3),
      RadialDistUncalibratedAbsolutePose.focal_length = f,
      RadialDistUncalibratedAbsolutePose.radial_distortion = - 1 / 4\<rparr>"

definition five :: "real FeatureCorrespondence2D3D list" where
  "five = [grid 0 0, grid 0 1, grid 0 2, grid 0 3, grid 0 4]"

text \<open>
  A board of two rows of nine corners, all eighteen observed where they are on the target.
  On the script \<open>[(12, 1), (3, 2)]\<close> row 0 is estimated with 12 inliers and a shift of 1,
  row 1 with 3 inliers and a shift of 2; \<open>final_two_rows\<close> is the state at the return.
\<close>

definition two_rows :: "real FeatureCorrespondence2D3D list" where
  "two_rows = map (grid 0) [0..<9] @ map (grid 1) [0..<9]"

definition board92 :: CharucoBoard where
  "board92 = \<lparr>chessboard_width = 9, chessboard_height = 2\<rparr>"

definition ids18 :: "int list" where
  "ids18 = map int [0..<18]"

definition final_two_rows :: "(real, (nat \<times> real) list) ds_state" where
  "final_two_rows =
     \<lparr>ransac_summary = stub_summary 3, rotation = I3, position = (1, 0, 0),
      focal_length = 1 / 2, correspondences = two_rows, gamma0 = 1, min_reproj_error = 1,
      success = True, rng = []\<rparr>"

text \<open>
  Row 0 of that board and one corner of row 1, whose target point the camera sends outside
  the image; and a board whose row 0 fits a radial line and whose row 1 has no real
  solution.
\<close>

definition nine_plus_one :: "real FeatureCorrespondence2D3D list" where
  "nine_plus_one = map (grid 0) [0..<9] @ [\<lparr>feature = (0, 1), world_point = (100, 1, 0)\<rparr>]"

definition ids10 :: "int list" where
  "ids10 = map int [0..<10]"

definition degenerate_rows :: "real FeatureCorrespondence2D3D list" where
  "degenerate_rows =
     map (\<lambda>c. \<lparr>feature = (real c, - 1), world_point = (real c, 0, 0)\<rparr>) [0..<9] @
     map (\<lambda>c. \<lparr>feature = (- 1 - real c, 1), world_point = (real c, 1, 0)\<rparr>) [0..<9]"

text \<open>
  The pose the scripted calibrated estimator returns; the state of the board of two rows
  after row 0; the candidates of its two rows.
\<close>

definition stub_calibrated_pose :: "real \<Rightarrow> real CalibratedAbsolutePose" where
  "stub_calibrated_pose x =
     \<lparr>CalibratedAbsolutePose.rotation = I3, CalibratedAbsolutePose.position = (x, 0, 0)\<rparr>"

definition mid_two_rows :: "(real, (nat \<times> real) list) ds_state" where
  "mid_two_rows =
     \<lparr>ransac_summary = stub_summary 12, rotation = I3, position = (1, 0, 0),
      focal_length = 1 / 2, correspondences = two_rows, gamma0 = 1, min_reproj_error = 1,
      success = True, rng = [(3, 2)]\<rparr>"

definition two_rows_cands :: "(real \<times> real CalibratedAbsolutePose \<times> real) list" where
  "two_rows_cands = [(1, stub_calibrated_pose 1, 1), (2, stub_calibrated_pose 2, 4)]"

text \<open>The state at the return when row 0 and one corner of row 1 are observed.\<close>

definition final_nine_plus_one :: "(real, (nat \<times> real) list) ds_state" where
  "final_nine_plus_one =
     \<lparr>ransac_summary = stub_summary 10, rotation = I3, position = (1, 0, 0),
      focal_length = 1 / 2, correspondences = nine_plus_one, gamma0 = 1, min_reproj_error = 1,
      success = True, rng = []\<rparr>"

section \<open>Lemmas\<close>

lemma fold_update_nth:
  "n \<le> length cs \<Longrightarrow>
     length (fold (\<lambda>i cs. cs[i := f (cs ! i)]) [0..<n] cs) = length cs \<and>
     (\<forall>i<length cs. fold (\<lambda>i cs. cs[i := f (cs ! i)]) [0..<n] cs ! i
        = (if i < n then f (cs ! i) else cs ! i))"
proof (induction n)
  case 0
  then show ?case by simp
next
  case (Suc n)
  then have IH: "length (fold (\<lambda>i cs. cs[i := f (cs ! i)]) [0..<n] cs) = length cs"
    "\<And>i. i < length cs \<Longrightarrow> fold (\<lambda>i cs. cs[i := f (cs ! i)]) [0..<n] cs ! i
        = (if i < n then f (cs ! i) else cs ! i)"
    by simp_all
  from Suc.prems have n: "n < length cs" by simp
  show ?case
    using n by (auto simp: IH nth_list_update less_Suc_eq)
qed

lemma undistort_map:
  "undistort E cam cs =
     map (\<lambda>cor. cor\<lparr>feature := hnormalized (PixelToNormalizedCoordinates E cam (feature cor))\<rparr>) cs"
proof -
  let ?f = "\<lambda>cor. cor\<lparr>feature := hnormalized (PixelToNormalizedCoordinates E cam (feature cor))\<rparr>"
  have u: "undistort E cam cs = fold (\<lambda>i cs. cs[i := ?f (cs ! i)]) [0..<length cs] cs"
    by (simp add: undistort_def)
  have "length (undistort E cam cs) = length cs"
    and "\<And>i. i < length cs \<Longrightarrow> undistort E cam cs ! i = ?f (cs ! i)"
    using fold_update_nth [of "length cs" cs ?f] unfolding u by simp_all
  then show ?thesis
    by (intro nth_equalityI) simp_all
qed

lemma update_best_frame:
  "correspondences (update_best E gamma pose err n st) = correspondences st"
  "ransac_summary (update_best E gamma pose err n st) = ransac_summary st"
  "rng (update_best E gamma pose err n st) = rng st"
  by (simp_all add: update_best_def Let_def)

lemma estimate_row_summary:
  "ransac_summary (snd (estimate_row E p cols rows gamma st)) =
     fst (snd (snd (EstimateCalibratedAbsolutePose E p RANSAC
        (undistort E (guess_camera E cols rows gamma) (correspondences st))
        (ransac_summary st) (rng st))))"
  by (simp add: estimate_row_def Let_def split: prod.splits)

lemma row_body_correspondences:
  "correspondences (row_body E p cols rows m tc r st) = correspondences st"
proof -
  have "correspondences (snd (estimate_row E p cols rows gamma st)) = correspondences st"
    for gamma
    by (simp add: estimate_row_def Let_def split: prod.splits)
  then show ?thesis
    by (auto simp: row_body_def Let_def update_best_frame split: option.splits prod.splits)
      (metis snd_conv)
qed

lemma rows_loop_correspondences:
  "correspondences (rows_loop E p cols rows m tc rs st) = correspondences st"
  unfolding rows_loop_def
  by (induction rs arbitrary: st) (simp_all add: row_body_correspondences)

lemma length_row_points:
  "length (row_points E m tc r) = length (observed_cols m tc r)"
proof -
  have "length (fold (\<lambda>c P. let corner_id = int (r * tc + c) in
             case m corner_id of
               Some imagePoint \<Rightarrow>
                 P @ [(fst imagePoint, snd imagePoint, double_lit E 0.5,
                       (- double_lit E 0.5) *
                         (fst imagePoint * fst imagePoint + snd imagePoint * snd imagePoint))]
             | None \<Rightarrow> P) xs P0)
        = length P0 + length (filter (\<lambda>c. m (int (r * tc + c)) \<noteq> None) xs)" for xs P0
    by (induction xs arbitrary: P0) (auto simp: Let_def split: option.splits)
  then show ?thesis by (simp add: row_points_def observed_cols_def)
qed

lemma row_body_few:
  "length (observed_cols m tc r) < 9 \<Longrightarrow> row_body E p cols rows m tc r st = st"
  by (simp add: row_body_def length_row_points MIN_CORNERS_def)

lemma rows_loop_filter:
  assumes "\<And>r st. \<not> keep r \<Longrightarrow> row_body E p cols rows m tc r st = st"
  shows "rows_loop E p cols rows m tc rs st = rows_loop E p cols rows m tc (filter keep rs) st"
  unfolding rows_loop_def
  by (induction rs arbitrary: st) (simp_all add: assms)

lemma row_gamma_None:
  "no_real_solution E P \<or> near_radial E P \<Longrightarrow> row_gamma E P = None"
  by (auto simp: row_gamma_def no_real_solution_def near_radial_def Let_def split: prod.splits)

lemma row_body_degenerate:
  "no_real_solution E (row_points E m tc r) \<or> near_radial E (row_points E m tc r)
    \<Longrightarrow> row_body E p cols rows m tc r st = st"
  by (simp add: row_body_def Let_def row_gamma_None)

lemma rows_loop_append:
  "rows_loop E p cols rows m tc (rs @ rs') st =
     rows_loop E p cols rows m tc rs' (rows_loop E p cols rows m tc rs st)"
  by (simp add: rows_loop_def)

lemma rows_loop_skip_all:
  assumes "\<And>r. r \<in> set rs \<Longrightarrow> row_body E p cols rows m tc r st = st"
  shows "rows_loop E p cols rows m tc rs st = st"
  using assms unfolding rows_loop_def
  by (induction rs) simp_all

lemma best_estimate_row:
  "best (snd (estimate_row E p cols rows gamma st)) = best st"
  by (simp add: estimate_row_def best_def Let_def split: prod.splits)

lemma update_best_eq:
  "MIN_CORNERS < n \<Longrightarrow>
   update_best E gamma pose err n st =
     (if err / double_of_int E (int n) < min_reproj_error st \<and>
         err / double_of_int E (int n) < double_lit E 1000
      then st\<lparr>min_reproj_error := err / double_of_int E (int n), gamma0 := gamma,
              success := True, rotation := CalibratedAbsolutePose.rotation pose,
              position := CalibratedAbsolutePose.position pose,
              focal_length := double_lit E 0.5 * gamma\<rparr>
      else st)"
  by (simp add: update_best_def Let_def)

lemma update_best_skip:
  "n \<le> MIN_CORNERS \<Longrightarrow> update_best E gamma pose err n st = st"
  by (simp add: update_best_def)

lemma best_row_body:
  "best (row_body E p cols rows m tc r st) =
     (case row_candidate E p cols rows m tc r st of
        None \<Rightarrow> best st
      | Some (gamma, pose, avg) \<Rightarrow>
          if avg < min_reproj_error st \<and> avg < double_lit E 1000
          then (avg, gamma, True, CalibratedAbsolutePose.rotation pose,
                CalibratedAbsolutePose.position pose, double_lit E 0.5 * gamma)
          else best st)"
proof (cases "MIN_CORNERS < length (row_points E m tc r)")
  case False
  then show ?thesis by (simp add: row_body_def row_candidate_def)
next
  case len: True
  show ?thesis
  proof (cases "row_gamma E (row_points E m tc r)")
    case None
    with len show ?thesis by (simp add: row_body_def row_candidate_def)
  next
    case (Some gamma)
    obtain c st1 where "estimate_row E p cols rows gamma st = (c, st1)"
      by fastforce
    moreover obtain pose err n where "c = (pose, err, n)"
      by (cases c)
    ultimately have er: "estimate_row E p cols rows gamma st = ((pose, err, n), st1)"
      by simp
    have b1: "best st1 = best st"
      using best_estimate_row [of E p cols rows gamma st] er by simp
    then have min1: "min_reproj_error st1 = min_reproj_error st"
      by (simp add: best_def)
    show ?thesis
    proof (cases "MIN_CORNERS < n")
      case True
      with len Some er b1 min1 show ?thesis
        by (simp add: row_body_def row_candidate_def update_best_eq)
          (simp add: best_def)
    next
      case False
      with len Some er b1 show ?thesis
        by (simp add: row_body_def row_candidate_def update_best_skip)
    qed
  qed
qed

lemma candidates_append:
  "candidates E p cols rows m tc (rs @ rs') st =
     candidates E p cols rows m tc rs st
     @ candidates E p cols rows m tc rs' (rows_loop E p cols rows m tc rs st)"
  by (induction rs arbitrary: st) (simp_all add: rows_loop_def)

lemma rows_loop_best:
  fixes E :: "('d::{plus,minus,times,uminus,inverse,abs,ord}, 'p, 'g) externals"
  assumes trans: "\<forall>a b c :: 'd. a < b \<longrightarrow> b < c \<longrightarrow> a < c"
    and irrefl: "\<forall>a :: 'd. \<not> a < a"
    and init: "\<not> success st0"
  shows "(\<forall>(gamma, pose, avg) \<in> set (candidates E p cols rows m tc rs st0).
            avg < double_lit E 1000 \<longrightarrow>
              \<not> avg < min_reproj_error (rows_loop E p cols rows m tc rs st0)) \<and>
         (success (rows_loop E p cols rows m tc rs st0) \<longrightarrow>
            (\<exists>(gamma, pose, avg) \<in> set (candidates E p cols rows m tc rs st0).
                 avg < min_reproj_error st0 \<and> avg < double_lit E 1000 \<and>
                 best (rows_loop E p cols rows m tc rs st0) =
                   (avg, gamma, True, CalibratedAbsolutePose.rotation pose,
                    CalibratedAbsolutePose.position pose, double_lit E 0.5 * gamma))) \<and>
         (\<not> success (rows_loop E p cols rows m tc rs st0) \<longrightarrow>
            best (rows_loop E p cols rows m tc rs st0) = best st0)"
proof (induction rs rule: rev_induct)
  case Nil
  then show ?case by (simp add: rows_loop_def init)
next
  case (snoc r rs)
  let ?st = "rows_loop E p cols rows m tc rs st0"
  let ?cs = "candidates E p cols rows m tc rs st0"
  have loop: "rows_loop E p cols rows m tc (rs @ [r]) st0 = row_body E p cols rows m tc r ?st"
    by (simp add: rows_loop_def)
  have cands: "candidates E p cols rows m tc (rs @ [r]) st0 =
      ?cs @ (case row_candidate E p cols rows m tc r ?st of None \<Rightarrow> [] | Some c \<Rightarrow> [c])"
    by (simp add: candidates_append)
  have lower: "\<And>gamma pose avg. (gamma, pose, avg) \<in> set ?cs \<Longrightarrow> avg < double_lit E 1000
      \<Longrightarrow> \<not> avg < min_reproj_error ?st"
    using snoc.IH by auto
  have mono: "min_reproj_error ?st = min_reproj_error st0 \<or> min_reproj_error ?st < min_reproj_error st0"
    using snoc.IH by (auto simp: best_def split: if_splits)
  show ?case
  proof (cases "row_candidate E p cols rows m tc r ?st")
    case None
    then have b: "best (row_body E p cols rows m tc r ?st) = best ?st"
      by (simp add: best_row_body)
    then have s: "success (row_body E p cols rows m tc r ?st) = success ?st"
      and mn: "min_reproj_error (row_body E p cols rows m tc r ?st) = min_reproj_error ?st"
      by (simp_all add: best_def)
    show ?thesis
      unfolding loop cands using None b s mn snoc.IH by simp
  next
    case (Some c)
    obtain gamma pose avg where c: "c = (gamma, pose, avg)" by (metis prod_cases3)
    show ?thesis
    proof (cases "avg < min_reproj_error ?st \<and> avg < double_lit E 1000")
      case True
      have b: "best (row_body E p cols rows m tc r ?st) =
          (avg, gamma, True, CalibratedAbsolutePose.rotation pose,
           CalibratedAbsolutePose.position pose, double_lit E 0.5 * gamma)"
        using Some c True by (simp add: best_row_body)
      have lt0: "avg < min_reproj_error st0"
        using mono True trans by auto
      have low: "\<And>gamma' pose' avg'. (gamma', pose', avg') \<in> set ?cs \<Longrightarrow>
          avg' < double_lit E 1000 \<Longrightarrow> \<not> avg' < avg"
        using lower True trans by blast
      from b have s: "success (row_body E p cols rows m tc r ?st)"
        and mn: "min_reproj_error (row_body E p cols rows m tc r ?st) = avg"
        by (simp_all add: best_def)
      show ?thesis
        unfolding loop cands using Some c True b s mn lt0 low irrefl
        by auto
    next
      case False
      have b: "best (row_body E p cols rows m tc r ?st) = best ?st"
        using Some c False by (auto simp: best_row_body)
      then have s: "success (row_body E p cols rows m tc r ?st) = success ?st"
        and mn: "min_reproj_error (row_body E p cols rows m tc r ?st) = min_reproj_error ?st"
        by (simp_all add: best_def)
      show ?thesis
        unfolding loop cands using Some c False b s mn snoc.IH
        by (auto split: if_splits)
    qed
  qed
qed

lemma upt_9: "[0..<9] = [0, 1, 2, 3, 4, 5, 6, 7, 8]"
  by (simp add: upt_rec)

lemma upt_18: "[0..<18] = [0, 1, 2, 3, 4, 5, 6, 7, 8, 9, 10, 11, 12, 13, 14, 15, 16, 17]"
  by (simp add: upt_rec)

lemma row_body_not_attempted:
  "\<not> attempted E m tc r \<Longrightarrow> row_body E p cols rows m tc r st = st"
  by (auto simp: attempted_def row_body_def Let_def)

lemma row_body_summary:
  assumes "MIN_CORNERS < length (row_points E m tc r)"
    and "row_gamma E (row_points E m tc r) = Some gamma"
  shows "ransac_summary (row_body E p cols rows m tc r st) =
     fst (snd (snd (EstimateCalibratedAbsolutePose E p RANSAC
        (undistort E (guess_camera E cols rows gamma) (correspondences st))
        (ransac_summary st) (rng st))))"
proof -
  obtain c st1 where er: "estimate_row E p cols rows gamma st = (c, st1)"
    by fastforce
  obtain pose err n where c: "c = (pose, err, n)"
    by (cases c)
  have "ransac_summary (row_body E p cols rows m tc r st) = ransac_summary st1"
    using assms er c by (simp add: row_body_def update_best_frame)
  also have "\<dots> = ransac_summary (snd (estimate_row E p cols rows gamma st))"
    using er by simp
  finally show ?thesis
    by (simp add: estimate_row_summary)
qed

lemma upt_2: "[0..<2] = [0, 1]"
  by (simp add: upt_rec)

lemma two_rows_points:
  "row_points stub_externals (id_to_corner_loop ids18 two_rows) 9 0 =
     map (\<lambda>c. (real c, 0, 1 / 2, - (1 / 2) * (real c * real c))) [0..<9]"
  "row_points stub_externals (id_to_corner_loop ids18 two_rows) 9 (Suc 0) =
     map (\<lambda>c. (real c, 1, 1 / 2, - (1 / 2) * (real c * real c + 1))) [0..<9]"
  by (simp_all add: row_points_def id_to_corner_loop_def ids18_def two_rows_def upt_9 upt_18
      grid_def stub_externals_def)

lemma two_rows_gamma:
  "row_gamma stub_externals
     (row_points stub_externals (id_to_corner_loop ids18 two_rows) 9 0) = Some 1"
  "row_gamma stub_externals
     (row_points stub_externals (id_to_corner_loop ids18 two_rows) 9 (Suc 0)) = Some 2"
  unfolding two_rows_points
  by (simp_all add: upt_9 row_gamma_def stub_externals_def stub_svd_def)

lemma two_rows_run:
  "initialize_doublesphere_model stub_externals two_rows ids18 board92 () 20 20 False vars0
     [(12, 1), (3, 2)] = Inr (False, final_two_rows)"
  apply (simp add: initialize_doublesphere_model_def build_id_to_corner_def
      id_to_corner_loop_def ids18_def two_rows_def upt_9 upt_18 upt_2 grid_def board92_def
      rows_loop_def)
  apply (simp add: row_body_def row_points_def upt_9 MIN_CORNERS_def stub_externals_def
      row_gamma_def stub_svd_def initial_state_def vars0_def)
  apply (simp add: estimate_row_def undistort_def guess_camera_def upt_18 hnormalized_def
      stub_calibrated_def reproject_def homogeneous_def squaredNorm_def minus2_def
      update_best_def MIN_CORNERS_def stub_summary_def final_two_rows_def two_rows_def upt_9
      grid_def)
  done

lemma upt_10: "[0..<10] = [0, 1, 2, 3, 4, 5, 6, 7, 8, 9]"
  by (simp add: upt_rec)

lemma row_candidate_few:
  "length (observed_cols m tc r) < 9 \<Longrightarrow> row_candidate E p cols rows m tc r st = None"
  by (simp add: row_candidate_def length_row_points MIN_CORNERS_def)

lemma nine_plus_one_observed:
  "observed_cols (id_to_corner_loop ids10 nine_plus_one) 9 0 = [0, 1, 2, 3, 4, 5, 6, 7, 8]"
  "observed_cols (id_to_corner_loop ids10 nine_plus_one) 9 (Suc 0) = [0]"
  by (simp_all add: observed_cols_def id_to_corner_loop_def ids10_def nine_plus_one_def
      upt_9 upt_10)

lemma degenerate_rows_points:
  "row_points stub_externals (id_to_corner_loop ids18 degenerate_rows) 9 0 =
     map (\<lambda>c. (real c, - 1, 1 / 2, - (1 / 2) * (real c * real c + 1))) [0..<9]"
  "row_points stub_externals (id_to_corner_loop ids18 degenerate_rows) 9 (Suc 0) =
     map (\<lambda>c. (- 1 - real c, 1, 1 / 2,
                - (1 / 2) * ((- 1 - real c) * (- 1 - real c) + 1))) [0..<9]"
  by (simp_all add: row_points_def id_to_corner_loop_def ids18_def degenerate_rows_def upt_9
      upt_18 stub_externals_def)

lemma degenerate_rows_tests:
  "near_radial stub_externals
     (row_points stub_externals (id_to_corner_loop ids18 degenerate_rows) 9 0)"
  "no_real_solution stub_externals
     (row_points stub_externals (id_to_corner_loop ids18 degenerate_rows) 9 (Suc 0))"
  unfolding degenerate_rows_points
  by (simp_all add: near_radial_def no_real_solution_def upt_9 stub_externals_def stub_svd_def)

lemma degenerate_rows_run:
  "initialize_doublesphere_model stub_externals degenerate_rows ids18 board92 () 20 20 False
     vars0 [(12, 1)] = Inr (False, initial_state stub_externals degenerate_rows vars0 [(12, 1)])"
  apply (simp add: initialize_doublesphere_model_def build_id_to_corner_def
      id_to_corner_loop_def ids18_def degenerate_rows_def upt_9 upt_18 upt_2 board92_def
      rows_loop_def)
  apply (simp add: row_body_def row_points_def upt_9 MIN_CORNERS_def stub_externals_def
      row_gamma_def stub_svd_def initial_state_def vars0_def stub_summary_def)
  done

lemma two_rows_estimate0:
  "estimate_row stub_externals () 20 20 1
      (initial_state stub_externals two_rows vars0 [(12, 1), (3, 2)]) =
     ((stub_calibrated_pose 1, 18, 18),
      (initial_state stub_externals two_rows vars0 [(12, 1), (3, 2)])
        \<lparr>ransac_summary := stub_summary 12, rng := [(3, 2)]\<rparr>)"
  by (simp add: estimate_row_def undistort_def guess_camera_def upt_18 hnormalized_def
      stub_calibrated_def reproject_def homogeneous_def squaredNorm_def minus2_def
      two_rows_def upt_9 grid_def stub_externals_def initial_state_def
      stub_calibrated_pose_def)

lemma two_rows_len:
  "length (row_points stub_externals (id_to_corner_loop ids18 two_rows) 9 0) = 9"
  "length (row_points stub_externals (id_to_corner_loop ids18 two_rows) 9 (Suc 0)) = 9"
  by (simp_all add: two_rows_points)

lemma two_rows_row0:
  "row_body stub_externals () 20 20 (id_to_corner_loop ids18 two_rows) 9 0
      (initial_state stub_externals two_rows vars0 [(12, 1), (3, 2)]) = mid_two_rows"
  by (simp add: row_body_def two_rows_gamma two_rows_len MIN_CORNERS_def two_rows_estimate0
      update_best_def)
    (simp add: initial_state_def stub_externals_def vars0_def mid_two_rows_def
      stub_calibrated_pose_def)

lemma two_rows_estimate1:
  "estimate_row stub_externals () 20 20 2 mid_two_rows =
     ((stub_calibrated_pose 2, 72, 18),
      mid_two_rows\<lparr>ransac_summary := stub_summary 3, rng := []\<rparr>)"
  by (simp add: estimate_row_def undistort_def guess_camera_def upt_18 hnormalized_def
      stub_calibrated_def reproject_def homogeneous_def squaredNorm_def minus2_def
      two_rows_def upt_9 grid_def stub_externals_def mid_two_rows_def
      stub_calibrated_pose_def)

lemma two_rows_candidates:
  "candidates stub_externals () 20 20 (id_to_corner_loop ids18 two_rows)
      (chessboard_width board92) [0..<chessboard_height board92]
      (initial_state stub_externals two_rows vars0 [(12, 1), (3, 2)]) =
     two_rows_cands"
proof -
  have c0: "row_candidate stub_externals () 20 20 (id_to_corner_loop ids18 two_rows) 9 0
      (initial_state stub_externals two_rows vars0 [(12, 1), (3, 2)]) =
        Some (1, stub_calibrated_pose 1, 1)"
    by (simp add: row_candidate_def two_rows_gamma two_rows_len MIN_CORNERS_def
        two_rows_estimate0)
      (simp add: stub_externals_def)
  have c1: "row_candidate stub_externals () 20 20 (id_to_corner_loop ids18 two_rows) 9 (Suc 0)
      mid_two_rows = Some (2, stub_calibrated_pose 2, 4)"
    by (simp add: row_candidate_def two_rows_gamma two_rows_len MIN_CORNERS_def
        two_rows_estimate1)
      (simp add: stub_externals_def)
  show ?thesis
    by (simp add: board92_def upt_2 c0 c1 two_rows_row0 two_rows_cands_def)
qed

lemma nine_plus_one_points:
  "row_points stub_externals (id_to_corner_loop ids10 nine_plus_one) 9 0 =
     map (\<lambda>c. (real c, 0, 1 / 2, - (1 / 2) * (real c * real c))) [0..<9]"
  by (simp add: row_points_def id_to_corner_loop_def ids10_def nine_plus_one_def upt_9 upt_10
      grid_def stub_externals_def)

lemma nine_plus_one_len:
  "length (row_points stub_externals (id_to_corner_loop ids10 nine_plus_one) 9 0) = 9"
  by (simp add: nine_plus_one_points)

lemma nine_plus_one_gamma:
  "row_gamma stub_externals
     (row_points stub_externals (id_to_corner_loop ids10 nine_plus_one) 9 0) = Some 1"
  unfolding nine_plus_one_points
  by (simp add: upt_9 row_gamma_def stub_externals_def stub_svd_def)

lemma nine_plus_one_estimate:
  "estimate_row stub_externals () 20 20 1
      (initial_state stub_externals nine_plus_one vars0 [(10, 1)]) =
     ((stub_calibrated_pose 1, 9, 9),
      (initial_state stub_externals nine_plus_one vars0 [(10, 1)])
        \<lparr>ransac_summary := stub_summary 10, rng := []\<rparr>)"
  by (simp add: estimate_row_def undistort_def guess_camera_def upt_10 hnormalized_def
      stub_calibrated_def reproject_def homogeneous_def squaredNorm_def minus2_def
      nine_plus_one_def upt_9 grid_def stub_externals_def initial_state_def
      stub_calibrated_pose_def)

lemma nine_plus_one_estimate_far:
  "estimate_row stub_externals () 20 20 1
      (initial_state stub_externals nine_plus_one vars0 [(10, 100)]) =
     ((stub_calibrated_pose 100, 0, 0),
      (initial_state stub_externals nine_plus_one vars0 [(10, 100)])
        \<lparr>ransac_summary := stub_summary 10, rng := []\<rparr>)"
  by (simp add: estimate_row_def undistort_def guess_camera_def upt_10 hnormalized_def
      stub_calibrated_def reproject_def homogeneous_def squaredNorm_def minus2_def
      nine_plus_one_def upt_9 grid_def stub_externals_def initial_state_def
      stub_calibrated_pose_def)

lemma nine_plus_one_row0:
  "row_body stub_externals () 20 20 (id_to_corner_loop ids10 nine_plus_one) 9 0
      (initial_state stub_externals nine_plus_one vars0 [(10, 1)]) = final_nine_plus_one"
  by (simp add: row_body_def nine_plus_one_gamma nine_plus_one_len MIN_CORNERS_def
      nine_plus_one_estimate update_best_def)
    (simp add: initial_state_def stub_externals_def vars0_def final_nine_plus_one_def
      stub_calibrated_pose_def)

lemma nine_plus_one_run:
  "initialize_doublesphere_model stub_externals nine_plus_one ids10 board92 () 20 20 False
     vars0 [(10, 1)] = Inr (True, final_nine_plus_one)"
proof -
  have "build_id_to_corner ids10 nine_plus_one = Inr (id_to_corner_loop ids10 nine_plus_one)"
    by (simp add: build_id_to_corner_def ids10_def nine_plus_one_def)
  moreover have "rows_loop stub_externals () 20 20 (id_to_corner_loop ids10 nine_plus_one) 9
      [0..<2] (initial_state stub_externals nine_plus_one vars0 [(10, 1)]) = final_nine_plus_one"
    by (simp add: rows_loop_def upt_2 nine_plus_one_row0 row_body_few nine_plus_one_observed)
  ultimately show ?thesis
    by (simp add: initialize_doublesphere_model_def board92_def)
      (simp add: final_nine_plus_one_def stub_summary_def)
qed

lemma doublesphere_returns:
  assumes "length ids \<le> length cs"
  shows "\<exists>ret st.
    initialize_doublesphere_model E cs ids board p cols rows verbose vars g = Inr (ret, st)"
  using assms
  by (auto simp: initialize_doublesphere_model_def build_id_to_corner_def Let_def)

lemma final_gate_of_run:
  assumes run: "initialize_doublesphere_model E cs ids board p cols rows verbose vars g
                  = Inr (ret, st)"
  shows "ret = (if length (inliers (ransac_summary st)) < 10 then False else success st) \<and>
    (\<forall>k gamma.
        last_attempted E (id_to_corner_loop ids cs) (chessboard_width board)
          (chessboard_height board) k \<and>
        row_gamma E (row_points E (id_to_corner_loop ids cs) (chessboard_width board) k)
          = Some gamma \<longrightarrow>
        ransac_summary st =
          fst (snd (snd (EstimateCalibratedAbsolutePose E p RANSAC
            (undistort E (guess_camera E cols rows gamma) cs)
            (ransac_summary (rows_loop E p cols rows (id_to_corner_loop ids cs)
               (chessboard_width board) [0..<k] (initial_state E cs vars g)))
            (rng (rows_loop E p cols rows (id_to_corner_loop ids cs)
               (chessboard_width board) [0..<k] (initial_state E cs vars g))))))) \<and>
    ((\<forall>k \<in> set [0..<chessboard_height board].
         \<not> attempted E (id_to_corner_loop ids cs) (chessboard_width board) k) \<longrightarrow>
       ransac_summary st = ransac_summary vars \<and> \<not> ret)"
proof -
  let ?m = "id_to_corner_loop ids cs"
  let ?tc = "chessboard_width board"
  let ?H = "chessboard_height board"
  let ?init = "initial_state E cs vars g"
  have st: "st = rows_loop E p cols rows ?m ?tc [0..<?H] ?init"
    and ret: "ret = (if length (inliers (ransac_summary st)) < 10 then False else success st)"
    using run
    by (auto simp: initialize_doublesphere_model_def build_id_to_corner_def Let_def
        split: if_splits)
  have last: "ransac_summary st =
          fst (snd (snd (EstimateCalibratedAbsolutePose E p RANSAC
            (undistort E (guess_camera E cols rows gamma) cs)
            (ransac_summary (rows_loop E p cols rows ?m ?tc [0..<k] ?init))
            (rng (rows_loop E p cols rows ?m ?tc [0..<k] ?init)))))"
    if la: "last_attempted E ?m ?tc ?H k"
      and gm: "row_gamma E (row_points E ?m ?tc k) = Some gamma" for k gamma
  proof -
    let ?stk = "rows_loop E p cols rows ?m ?tc [0..<k] ?init"
    from la have k: "k < ?H" and att: "attempted E ?m ?tc k"
      and later: "\<And>j. j \<in> set [Suc k..<?H] \<Longrightarrow> \<not> attempted E ?m ?tc j"
      by (auto simp: last_attempted_def)
    have split: "[0..<?H] = [0..<k] @ [k] @ [Suc k..<?H]"
      using k by (metis append_Cons append_Nil le0 less_imp_le_nat upt_add_eq_append
          upt_conv_Cons le_add_diff_inverse plus_nat.add_0)
    have "st = rows_loop E p cols rows ?m ?tc [Suc k..<?H]
                 (rows_loop E p cols rows ?m ?tc [k] ?stk)"
      unfolding st by (subst split) (simp only: rows_loop_append)
    also have "\<dots> = rows_loop E p cols rows ?m ?tc [k] ?stk"
      by (rule rows_loop_skip_all) (simp add: row_body_not_attempted later)
    also have "\<dots> = row_body E p cols rows ?m ?tc k ?stk"
      by (simp add: rows_loop_def)
    finally have "st = row_body E p cols rows ?m ?tc k ?stk" .
    moreover have "correspondences ?stk = cs"
      by (simp add: rows_loop_correspondences initial_state_def)
    ultimately show ?thesis
      using att gm row_body_summary [of E ?m ?tc k gamma p cols rows ?stk]
      by (simp add: attempted_def)
  qed
  have none: "ransac_summary st = ransac_summary vars \<and> \<not> ret"
    if "\<forall>k \<in> set [0..<?H]. \<not> attempted E ?m ?tc k"
  proof -
    have "st = ?init"
      unfolding st by (rule rows_loop_skip_all) (use that in \<open>simp add: row_body_not_attempted\<close>)
    then show ?thesis
      using ret by (simp add: initial_state_def)
  qed
  from ret last none show ?thesis by blast
qed


lemma best_candidate_of_run:
  fixes E :: "('d::{plus,minus,times,uminus,inverse,abs,ord}, 'p, 'g) externals"
  assumes trans: "\<forall>a b c :: 'd. a < b \<longrightarrow> b < c \<longrightarrow> a < c"
    and irrefl: "\<forall>a :: 'd. \<not> a < a"
    and run: "initialize_doublesphere_model E cs ids board p cols rows verbose vars g
                = Inr (ret, st)"
    and cands: "cands = candidates E p cols rows (id_to_corner_loop ids cs)
                  (chessboard_width board) [0..<chessboard_height board]
                  (initial_state E cs vars g)"
  shows "(\<forall>gamma pose err n st0. MIN_CORNERS < n \<longrightarrow>
            update_best E gamma pose err n st0 =
              (if err / double_of_int E (int n) < min_reproj_error st0 \<and>
                  err / double_of_int E (int n) < double_lit E 1000
               then st0\<lparr>min_reproj_error := err / double_of_int E (int n), gamma0 := gamma,
                        success := True, rotation := CalibratedAbsolutePose.rotation pose,
                        position := CalibratedAbsolutePose.position pose,
                        focal_length := double_lit E 0.5 * gamma\<rparr>
               else st0)) \<and>
         (success st \<longrightarrow>
            (\<exists>(gamma, pose, avg) \<in> set cands.
               avg < DBL_MAX E \<and> avg < double_lit E 1000 \<and>
               min_reproj_error st = avg \<and>
               rotation st = CalibratedAbsolutePose.rotation pose \<and>
               position st = CalibratedAbsolutePose.position pose \<and>
               focal_length st = double_lit E 0.5 * gamma \<and>
               (\<forall>(gamma', pose', avg') \<in> set cands.
                  avg' < double_lit E 1000 \<longrightarrow> \<not> avg' < avg))) \<and>
         (\<not> success st \<longrightarrow>
            rotation st = rotation vars \<and> position st = position vars \<and>
            focal_length st = focal_length vars \<and>
            (\<forall>(gamma', pose', avg') \<in> set cands.
               \<not> (avg' < DBL_MAX E \<and> avg' < double_lit E 1000)))"
proof -
  let ?m = "id_to_corner_loop ids cs"
  let ?tc = "chessboard_width board"
  let ?rs = "[0..<chessboard_height board]"
  let ?init = "initial_state E cs vars g"
  have st: "st = rows_loop E p cols rows ?m ?tc ?rs ?init"
    using run
    by (auto simp: initialize_doublesphere_model_def build_id_to_corner_def Let_def
        split: if_splits)
  have init: "\<not> success ?init" and min0: "min_reproj_error ?init = DBL_MAX E"
    by (simp_all add: initial_state_def)
  note inv = rows_loop_best [where E = E and ?st0.0 = ?init and p = p and cols = cols
      and rows = rows and m = ?m and tc = ?tc and rs = ?rs, OF trans irrefl init,
      folded st cands, unfolded min0]
  from inv have lower: "\<forall>(gamma, pose, avg) \<in> set cands.
      avg < double_lit E 1000 \<longrightarrow> \<not> avg < min_reproj_error st"
    by blast
  have won: "\<exists>(gamma, pose, avg) \<in> set cands.
               avg < DBL_MAX E \<and> avg < double_lit E 1000 \<and>
               min_reproj_error st = avg \<and>
               rotation st = CalibratedAbsolutePose.rotation pose \<and>
               position st = CalibratedAbsolutePose.position pose \<and>
               focal_length st = double_lit E 0.5 * gamma \<and>
               (\<forall>(gamma', pose', avg') \<in> set cands.
                  avg' < double_lit E 1000 \<longrightarrow> \<not> avg' < avg)"
    if "success st"
  proof -
    from inv that obtain gamma pose avg where c: "(gamma, pose, avg) \<in> set cands"
      and q: "avg < DBL_MAX E" "avg < double_lit E 1000"
      and b: "best st = (avg, gamma, True, CalibratedAbsolutePose.rotation pose,
                    CalibratedAbsolutePose.position pose, double_lit E 0.5 * gamma)"
      by blast
    from b have mn: "min_reproj_error st = avg" by (simp add: best_def)
    with lower have "\<forall>(gamma', pose', avg') \<in> set cands.
                  avg' < double_lit E 1000 \<longrightarrow> \<not> avg' < avg"
      by simp
    with c q b mn show ?thesis
      by (auto simp: best_def intro!: bexI [of _ "(gamma, pose, avg)"])
  qed
  have lost: "rotation st = rotation vars \<and> position st = position vars \<and>
            focal_length st = focal_length vars \<and>
            (\<forall>(gamma', pose', avg') \<in> set cands.
               \<not> (avg' < DBL_MAX E \<and> avg' < double_lit E 1000))"
    if "\<not> success st"
  proof -
    from inv that have b: "best st = best ?init" by blast
    then have "min_reproj_error st = DBL_MAX E"
      by (simp add: best_def initial_state_def)
    with lower have "\<forall>(gamma', pose', avg') \<in> set cands.
               \<not> (avg' < DBL_MAX E \<and> avg' < double_lit E 1000)"
      by auto
    with b show ?thesis
      by (simp add: best_def initial_state_def)
  qed
  from won lost show ?thesis
    by (simp add: update_best_eq)
qed

lemma correspondences_of_run:
  assumes run: "initialize_doublesphere_model E cs ids board p cols rows verbose vars g
                  = Inr (ret, st)"
  shows "correspondences st = cs \<and>
    (\<forall>r st0. correspondences (row_body E p cols rows m tc r st0) = correspondences st0) \<and>
    (\<forall>cam. undistort E cam cs =
        map (\<lambda>cor. cor\<lparr>feature :=
               hnormalized (PixelToNormalizedCoordinates E cam (feature cor))\<rparr>) cs \<and>
      map world_point (undistort E cam cs) = map world_point cs \<and>
      length (undistort E cam cs) = length cs)"
proof -
  have "st = rows_loop E p cols rows (id_to_corner_loop ids cs) (chessboard_width board)
        [0..<chessboard_height board] (initial_state E cs vars g)"
    using run
    by (auto simp: initialize_doublesphere_model_def build_id_to_corner_def Let_def
        split: if_splits)
  then have "correspondences st = cs"
    by (simp add: rows_loop_correspondences initial_state_def)
  moreover have "map world_point (undistort E cam cs) = map world_point cs" for cam
    by (simp add: undistort_map comp_def)
  ultimately show ?thesis
    using undistort_map [of E _ cs] by (simp add: row_body_correspondences)
qed

section \<open>The claims\<close>

subsection \<open>The pinhole and the radial initializer\<close>

text \<open>
  C6. With fewer than 5 correspondences \<^verbatim>\<open>initialize_radial_undistortion_camera\<close> returns
  \<^verbatim>\<open>false\<close> at once and no estimator runs: whatever the estimators are, the caller's
  objects (the summary among them) and the generator's state come back as they were.
\<close>

theorem radial_too_few:
  assumes "length cs < 5"
  shows "initialize_radial_undistortion_camera E cs ransac_params img_cols verbose vars g
           = (False, vars, g)"
  using assms by (simp add: initialize_radial_undistortion_camera_def)

theorem radial_too_few_witness:
  "length [grid 0 0, grid 0 1, grid 0 2] < 5 \<and>
   initialize_radial_undistortion_camera stub_externals [grid 0 0, grid 0 1, grid 0 2] () 640
      False rvars0 [(12, 0)] = (False, rvars0, [(12, 0)])"
  using radial_too_few [of "[grid 0 0, grid 0 1, grid 0 2]" stub_externals "()" 640 False rvars0
      "[(12, 0)]"]
  by simp

text \<open>
  C7. \<^verbatim>\<open>initialize_pinhole_camera\<close> returns \<^verbatim>\<open>true\<close> exactly when the uncalibrated
  estimator reports success and leaves at least 10 inliers in the summary.
\<close>

theorem pinhole_success_iff:
  assumes "EstimateUncalibratedAbsolutePose E ransac_params RANSAC cs (ransac_summary vars) g
             = (ok, pose, summary, g')"
  shows "fst (initialize_pinhole_camera E cs ransac_params verbose vars g)
           = (ok \<and> 10 \<le> length (inliers summary))"
  using assms by (auto simp: initialize_pinhole_camera_def Let_def)

theorem pinhole_success_iff_witness:
  "fst (initialize_pinhole_camera stub_externals five () False vars0 [(12, 0)]) = True
   \<and> fst (initialize_pinhole_camera stub_externals five () False vars0 [(9, 0)]) = False
   \<and> fst (initialize_pinhole_camera stub_externals five () False vars0 []) = False"
proof -
  have e1: "EstimateUncalibratedAbsolutePose stub_externals () RANSAC five
      (ransac_summary vars0) [(12, 0)] = (True, stub_pose 0, stub_summary 12, [])"
    by (simp add: stub_externals_def stub_uncalibrated_def stub_pose_def)
  have e2: "EstimateUncalibratedAbsolutePose stub_externals () RANSAC five
      (ransac_summary vars0) [(9, 0)] = (True, stub_pose 0, stub_summary 9, [])"
    by (simp add: stub_externals_def stub_uncalibrated_def stub_pose_def)
  have e3: "EstimateUncalibratedAbsolutePose stub_externals () RANSAC five
      (ransac_summary vars0) [] =
        (False, \<lparr>UncalibratedAbsolutePose.rotation = I3,
                 UncalibratedAbsolutePose.position = (0, 0, 0),
                 UncalibratedAbsolutePose.focal_length = 0\<rparr>, stub_summary 0, [])"
    by (simp add: stub_externals_def stub_uncalibrated_def vars0_def)
  show ?thesis
    using pinhole_success_iff [OF e1, of False] pinhole_success_iff [OF e2, of False]
      pinhole_success_iff [OF e3, of False]
    by (simp add: stub_summary_def)
qed

text \<open>
  C8. Whenever the radial estimator is run, i.e. with more than 4 correspondences, the
  position written is \<open>(- R\<^sup>T) t\<close> for the rotation \<open>R\<close> and the translation \<open>t\<close> of the
  estimated pose: coefficient by coefficient, the negated columns of \<open>R\<close> times \<open>t\<close>.
\<close>

theorem radial_position:
  assumes "4 < length cs"
    and "EstimateRadialDistUncalibratedAbsolutePose E ransac_params RANSAC cs
           (radial_meta_data E img_cols) (ransac_summary vars) g = (ok, pose, summary, g')"
    and "RadialDistUncalibratedAbsolutePose.rotation pose = ((a, b, c), (d, e, f), (h, i, j))"
    and "translation pose = (x, y, z)"
  shows "position (fst (snd (initialize_radial_undistortion_camera E cs ransac_params
            img_cols verbose vars g)))
           = ((- a) * x + (- d) * y + (- h) * z,
              (- b) * x + (- e) * y + (- i) * z,
              (- c) * x + (- f) * y + (- j) * z)"
  using assms
  by (simp add: initialize_radial_undistortion_camera_def Let_def mat_vec3_def uminus3_def
      transpose3_def)

theorem radial_position_witness:
  "4 < length five \<and>
   initialize_radial_undistortion_camera stub_externals five () 640 False rvars0 [(12, 1)] =
     (True,
      \<lparr>ransac_summary = stub_summary 12, rotation = Rz, position = (- 2, 1, - 3),
       focal_length = 170, radial_distortion = - 1 / 4\<rparr>, [])"
proof -
  have len: "4 < length five" by (simp add: five_def)
  have est: "EstimateRadialDistUncalibratedAbsolutePose stub_externals () RANSAC five
           (radial_meta_data stub_externals 640) (ransac_summary rvars0) [(12, 1)]
         = (True, stub_radial_pose 1 170, stub_summary 12, [])"
    by (simp add: stub_externals_def stub_radial_def radial_meta_data_def stub_radial_pose_def)
  have rot: "RadialDistUncalibratedAbsolutePose.rotation (stub_radial_pose 1 170)
      = ((0, - 1, 0), (1, 0, 0), (0, 0, 1))"
    by (simp add: stub_radial_pose_def Rz_def)
  have tr: "translation (stub_radial_pose 1 170) = (1, 2, 3)"
    by (simp add: stub_radial_pose_def)
  have pos: "position (fst (snd (initialize_radial_undistortion_camera stub_externals five ()
            640 False rvars0 [(12, 1)]))) = (- 2, 1, - 3)"
    using radial_position [OF len est rot tr, of False] by simp
  have "initialize_radial_undistortion_camera stub_externals five () 640 False rvars0 [(12, 1)]
     = (True,
      \<lparr>ransac_summary = stub_summary 12, rotation = Rz,
       position = position (fst (snd (initialize_radial_undistortion_camera stub_externals five ()
            640 False rvars0 [(12, 1)]))),
       focal_length = 170, radial_distortion = - 1 / 4\<rparr>, [])"
    using len est
    by (simp add: initialize_radial_undistortion_camera_def Let_def stub_radial_pose_def
        rvars0_def stub_summary_def)
  with pos len show ?thesis by simp
qed

text \<open>
  C10. When the estimator has run and left fewer than 10 inliers, the pinhole and the radial
  initializer return \<^verbatim>\<open>false\<close>, and the caller's rotation, position and focal length
  (and radial distortion) hold the values of the rejected estimate, not what the caller
  supplied.
\<close>

theorem failure_overwrites_outputs:
  assumes "EstimateUncalibratedAbsolutePose E p RANSAC cs (ransac_summary vars) g
             = (ok, pose, summary, g')"
    and "length (inliers summary) < 10"
    and "4 < length cs'"
    and "EstimateRadialDistUncalibratedAbsolutePose E p' RANSAC cs'
           (radial_meta_data E img_cols) (ransac_summary rvars) h = (ok', pose', summary', h')"
    and "length (inliers summary') < 10"
  shows "initialize_pinhole_camera E cs p verbose vars g =
           (False,
            vars\<lparr>ransac_summary := summary,
                 rotation := UncalibratedAbsolutePose.rotation pose,
                 position := UncalibratedAbsolutePose.position pose,
                 focal_length := UncalibratedAbsolutePose.focal_length pose\<rparr>, g') \<and>
         initialize_radial_undistortion_camera E cs' p' img_cols verbose' rvars h =
           (False,
            rvars\<lparr>ransac_summary := summary',
                  rotation := RadialDistUncalibratedAbsolutePose.rotation pose',
                  position := mat_vec3
                    (uminus3 (transpose3 (RadialDistUncalibratedAbsolutePose.rotation pose')))
                    (translation pose'),
                  radial_distortion := RadialDistUncalibratedAbsolutePose.radial_distortion pose',
                  focal_length := RadialDistUncalibratedAbsolutePose.focal_length pose'\<rparr>, h')"
  using assms
  by (simp add: initialize_pinhole_camera_def initialize_radial_undistortion_camera_def Let_def)

theorem failure_overwrites_outputs_witness:
  "length (inliers (stub_summary 9)) < 10 \<and> 4 < length five \<and>
   initialize_pinhole_camera stub_externals five () False vars0 [(9, 1)] =
     (False,
      \<lparr>ransac_summary = stub_summary 9, rotation = Rz, position = (1, 0, 0),
       focal_length = 800\<rparr>, []) \<and>
   initialize_radial_undistortion_camera stub_externals five () 640 False rvars0 [(9, 1)] =
     (False,
      \<lparr>ransac_summary = stub_summary 9, rotation = Rz, position = (- 2, 1, - 3),
       focal_length = 170, radial_distortion = - 1 / 4\<rparr>, []) \<and>
   vars0 = \<lparr>ransac_summary = stub_summary 0, rotation = I3, position = (7, 7, 7),
            focal_length = 7\<rparr>"
proof -
  have n: "length (inliers (stub_summary 9)) < 10" by (simp add: stub_summary_def)
  have len: "4 < length five" by (simp add: five_def)
  have e1: "EstimateUncalibratedAbsolutePose stub_externals () RANSAC five
      (ransac_summary vars0) [(9, 1)] = (True, stub_pose 1, stub_summary 9, [])"
    by (simp add: stub_externals_def stub_uncalibrated_def stub_pose_def)
  have e2: "EstimateRadialDistUncalibratedAbsolutePose stub_externals () RANSAC five
           (radial_meta_data stub_externals 640) (ransac_summary rvars0) [(9, 1)]
         = (True, stub_radial_pose 1 170, stub_summary 9, [])"
    by (simp add: stub_externals_def stub_radial_def radial_meta_data_def stub_radial_pose_def)
  show ?thesis
    using failure_overwrites_outputs [OF e1 n len e2 n, of False False] n len
    by (simp add: vars0_def rvars0_def stub_pose_def stub_radial_pose_def mat_vec3_def
        uminus3_def transpose3_def Rz_def)
qed

subsection \<open>The wide-angle initializer\<close>

text \<open>
  C1. Given no more ids than correspondences (so that the first loop stays inside the
  vector), \<^verbatim>\<open>initialize_doublesphere_model\<close> returns, and after the loop over the rows it
  returns \<^verbatim>\<open>false\<close> when the summary holds fewer than 10 inliers, whatever \<^verbatim>\<open>success\<close>
  is, and \<^verbatim>\<open>success\<close> otherwise. The summary is the one left by the estimator's run in
  the last attempted row (run on the undistorted copy, from the summary and the
  generator's state the rows before it left), which need not be the row of the best
  candidate; when no row is attempted it is the caller's and the function returns
  \<^verbatim>\<open>false\<close>.
\<close>

theorem doublesphere_final_gate:
  assumes len: "length ids \<le> length cs"
  shows "\<exists>ret st.
    initialize_doublesphere_model E cs ids board p cols rows verbose vars g = Inr (ret, st) \<and>
    ret = (if length (inliers (ransac_summary st)) < 10 then False else success st) \<and>
    (\<forall>k gamma.
        last_attempted E (id_to_corner_loop ids cs) (chessboard_width board)
          (chessboard_height board) k \<and>
        row_gamma E (row_points E (id_to_corner_loop ids cs) (chessboard_width board) k)
          = Some gamma \<longrightarrow>
        ransac_summary st =
          fst (snd (snd (EstimateCalibratedAbsolutePose E p RANSAC
            (undistort E (guess_camera E cols rows gamma) cs)
            (ransac_summary (rows_loop E p cols rows (id_to_corner_loop ids cs)
               (chessboard_width board) [0..<k] (initial_state E cs vars g)))
            (rng (rows_loop E p cols rows (id_to_corner_loop ids cs)
               (chessboard_width board) [0..<k] (initial_state E cs vars g))))))) \<and>
    ((\<forall>k \<in> set [0..<chessboard_height board].
         \<not> attempted E (id_to_corner_loop ids cs) (chessboard_width board) k) \<longrightarrow>
       ransac_summary st = ransac_summary vars \<and> \<not> ret)"
proof -
  from doublesphere_returns [OF len, of E board p cols rows verbose vars g] obtain ret st
    where run: "initialize_doublesphere_model E cs ids board p cols rows verbose vars g
                  = Inr (ret, st)"
    by blast
  from final_gate_of_run [OF run] run show ?thesis
    by blast
qed

text \<open>
  On the board of two rows, row 0 records its candidate (\<^verbatim>\<open>success\<close> is true) and row 1,
  the last attempted, leaves 3 inliers: the function returns \<^verbatim>\<open>false\<close>.
\<close>

theorem doublesphere_final_gate_witness:
  "initialize_doublesphere_model stub_externals two_rows ids18 board92 () 20 20 False vars0
     [(12, 1), (3, 2)] = Inr (False, final_two_rows) \<and>
   last_attempted stub_externals (id_to_corner_loop ids18 two_rows) 9 2 1 \<and>
   success final_two_rows \<and>
   length (inliers (ransac_summary final_two_rows)) = 3"
proof -
  have "attempted stub_externals (id_to_corner_loop ids18 two_rows) 9 (Suc 0)"
    unfolding attempted_def two_rows_gamma
    by (simp add: two_rows_points MIN_CORNERS_def)
  then have la: "last_attempted stub_externals (id_to_corner_loop ids18 two_rows) 9 2 1"
    by (simp add: last_attempted_def)
  have len: "length ids18 \<le> length two_rows"
    by (simp add: ids18_def two_rows_def)
  from doublesphere_final_gate [OF len, of stub_externals board92 "()" 20 20 False vars0
      "[(12, 1), (3, 2)]"]
  obtain ret st
    where r: "initialize_doublesphere_model stub_externals two_rows ids18 board92 () 20 20
        False vars0 [(12, 1), (3, 2)] = Inr (ret, st)"
      and e: "ret = (if length (inliers (ransac_summary st)) < 10 then False else success st)"
    by blast
  from r have eqs: "ret = False" "st = final_two_rows"
    by (simp_all add: two_rows_run)
  from e have "False = (if length (inliers (ransac_summary final_two_rows)) < 10 then False
                 else success final_two_rows)"
    unfolding eqs .
  then show ?thesis
    using la two_rows_run by (simp add: final_two_rows_def stub_summary_def)
qed

text \<open>
  C3. A row with fewer than 9 observed corners is skipped: the state (the summary and the
  generator's state in it) is as before, so nothing was fitted or estimated, and the row
  has no candidate. Hence the loop ends as the loop over the rows with at least 9 observed
  corners does.
\<close>

theorem few_corners_row_skipped:
  "(length (observed_cols m tc r) < 9 \<longrightarrow>
      row_body E p cols rows m tc r st = st \<and>
      row_candidate E p cols rows m tc r st = None) \<and>
   rows_loop E p cols rows m tc rs st =
     rows_loop E p cols rows m tc (filter (\<lambda>r. 9 \<le> length (observed_cols m tc r)) rs) st"
proof -
  have "rows_loop E p cols rows m tc rs st =
     rows_loop E p cols rows m tc (filter (\<lambda>r. 9 \<le> length (observed_cols m tc r)) rs) st"
    by (rule rows_loop_filter) (simp add: row_body_few)
  then show ?thesis
    by (simp add: row_body_few row_candidate_few)
qed

theorem few_corners_row_skipped_witness:
  "length (observed_cols (id_to_corner_loop ids10 nine_plus_one) 9 1) < 9 \<and>
   row_body stub_externals () 20 20 (id_to_corner_loop ids10 nine_plus_one) 9 1
       (initial_state stub_externals nine_plus_one vars0 [(10, 1)])
     = initial_state stub_externals nine_plus_one vars0 [(10, 1)] \<and>
   rows_loop stub_externals () 20 20 (id_to_corner_loop ids10 nine_plus_one) 9 [0, 1]
       (initial_state stub_externals nine_plus_one vars0 [(10, 1)])
     = rows_loop stub_externals () 20 20 (id_to_corner_loop ids10 nine_plus_one) 9 [0]
       (initial_state stub_externals nine_plus_one vars0 [(10, 1)])"
proof -
  have len: "length (observed_cols (id_to_corner_loop ids10 nine_plus_one) 9 1) < 9"
    by (simp add: nine_plus_one_observed)
  have f: "filter (\<lambda>r. 9 \<le> length (observed_cols (id_to_corner_loop ids10 nine_plus_one) 9 r))
      [0, 1] = [0]"
    by (simp add: nine_plus_one_observed)
  show ?thesis
    using few_corners_row_skipped [of "id_to_corner_loop ids10 nine_plus_one" 9 1
        stub_externals "()" 20 20 "initial_state stub_externals nine_plus_one vars0 [(10, 1)]"
        "[0, 1]"] len
    unfolding f by simp
qed

text \<open>
  C4. A row whose singular vector gives \<open>t < 0\<close>, or a direction with
  \<open>hypot nx ny > 0.95\<close>, is skipped with the state as before: the estimator has not run
  and the row has no candidate. When every row of the board has too few corners or is
  skipped so (and the ids are no more than the correspondences), the function returns
  \<^verbatim>\<open>false\<close> and leaves the caller's objects as they were.
\<close>

theorem degenerate_row_skipped:
  "(no_real_solution E (row_points E m tc r) \<or> near_radial E (row_points E m tc r) \<longrightarrow>
      row_body E p cols rows m tc r st = st \<and>
      row_candidate E p cols rows m tc r st = None) \<and>
   (length ids \<le> length cs \<and>
    (\<forall>r \<in> set [0..<chessboard_height board].
        length (observed_cols (id_to_corner_loop ids cs) (chessboard_width board) r) < 9 \<or>
        no_real_solution E
          (row_points E (id_to_corner_loop ids cs) (chessboard_width board) r) \<or>
        near_radial E
          (row_points E (id_to_corner_loop ids cs) (chessboard_width board) r)) \<longrightarrow>
      initialize_doublesphere_model E cs ids board p cols rows verbose vars g =
        Inr (False, initial_state E cs vars g))"
proof -
  have one: "row_body E p cols rows m tc r st = st \<and>
      row_candidate E p cols rows m tc r st = None"
    if "no_real_solution E (row_points E m tc r) \<or> near_radial E (row_points E m tc r)"
    using that row_gamma_None [of E "row_points E m tc r"]
    by (simp add: row_body_degenerate row_candidate_def Let_def)
  have all: "initialize_doublesphere_model E cs ids board p cols rows verbose vars g =
        Inr (False, initial_state E cs vars g)"
    if len: "length ids \<le> length cs"
      and deg: "\<forall>r \<in> set [0..<chessboard_height board].
        length (observed_cols (id_to_corner_loop ids cs) (chessboard_width board) r) < 9 \<or>
        no_real_solution E
          (row_points E (id_to_corner_loop ids cs) (chessboard_width board) r) \<or>
        near_radial E
          (row_points E (id_to_corner_loop ids cs) (chessboard_width board) r)"
  proof -
    let ?loop = "rows_loop E p cols rows (id_to_corner_loop ids cs) (chessboard_width board)
        [0..<chessboard_height board] (initial_state E cs vars g)"
    have "?loop = initial_state E cs vars g"
    proof (rule rows_loop_skip_all)
      fix r assume "r \<in> set [0..<chessboard_height board]"
      with deg have "length (observed_cols (id_to_corner_loop ids cs)
            (chessboard_width board) r) < 9 \<or>
          (no_real_solution E
            (row_points E (id_to_corner_loop ids cs) (chessboard_width board) r) \<or>
           near_radial E
            (row_points E (id_to_corner_loop ids cs) (chessboard_width board) r))"
        by blast
      then show "row_body E p cols rows (id_to_corner_loop ids cs) (chessboard_width board)
          r (initial_state E cs vars g) = initial_state E cs vars g"
        by (rule disjE) (simp_all add: row_body_few row_body_degenerate)
    qed
    with len show ?thesis
      by (simp add: initialize_doublesphere_model_def build_id_to_corner_def Let_def
          initial_state_def)
  qed
  from one all show ?thesis by blast
qed

theorem degenerate_row_skipped_witness:
  "near_radial stub_externals
     (row_points stub_externals (id_to_corner_loop ids18 degenerate_rows) 9 0) \<and>
   no_real_solution stub_externals
     (row_points stub_externals (id_to_corner_loop ids18 degenerate_rows) 9 1) \<and>
   row_body stub_externals () 20 20 (id_to_corner_loop ids18 degenerate_rows) 9 0
       (initial_state stub_externals degenerate_rows vars0 [(12, 1)])
     = initial_state stub_externals degenerate_rows vars0 [(12, 1)] \<and>
   length ids18 \<le> length degenerate_rows \<and>
   initialize_doublesphere_model stub_externals degenerate_rows ids18 board92 () 20 20 False
     vars0 [(12, 1)] = Inr (False, initial_state stub_externals degenerate_rows vars0 [(12, 1)])"
proof -
  have len: "length ids18 \<le> length degenerate_rows"
    by (simp add: ids18_def degenerate_rows_def)
  have all: "\<forall>r \<in> set [0..<chessboard_height board92].
        length (observed_cols (id_to_corner_loop ids18 degenerate_rows)
          (chessboard_width board92) r) < 9 \<or>
        no_real_solution stub_externals
          (row_points stub_externals (id_to_corner_loop ids18 degenerate_rows)
            (chessboard_width board92) r) \<or>
        near_radial stub_externals
          (row_points stub_externals (id_to_corner_loop ids18 degenerate_rows)
            (chessboard_width board92) r)"
    by (simp add: board92_def upt_2 degenerate_rows_tests)
  show ?thesis
    using degenerate_row_skipped [where E = stub_externals
        and m = "id_to_corner_loop ids18 degenerate_rows" and tc = 9 and r = 0 and p = "()"
        and cols = 20 and rows = 20
        and st = "initial_state stub_externals degenerate_rows vars0 [(12, 1)]"
        and cs = degenerate_rows and ids = ids18 and board = board92 and verbose = False
        and vars = vars0 and g = "[(12, 1)]"]
      all len degenerate_rows_tests
    by simp
qed

text \<open>
  C9. Given no more ids than correspondences the function returns, and at the return the
  caller's correspondences are what they were at the call; no row changes them. The vector undistorted in a row is a copy of them: as long as they
  are, with the same target points, each image point replaced by the normalized
  coordinates of the pixel.
\<close>

theorem correspondences_untouched:
  assumes len: "length ids \<le> length cs"
  shows "\<exists>ret st.
    initialize_doublesphere_model E cs ids board p cols rows verbose vars g = Inr (ret, st) \<and>
    correspondences st = cs \<and>
    (\<forall>r st0. correspondences (row_body E p cols rows m tc r st0) = correspondences st0) \<and>
    (\<forall>cam. undistort E cam cs =
        map (\<lambda>cor. cor\<lparr>feature :=
               hnormalized (PixelToNormalizedCoordinates E cam (feature cor))\<rparr>) cs \<and>
      map world_point (undistort E cam cs) = map world_point cs \<and>
      length (undistort E cam cs) = length cs)"
proof -
  from doublesphere_returns [OF len, of E board p cols rows verbose vars g] obtain ret st
    where run: "initialize_doublesphere_model E cs ids board p cols rows verbose vars g
                  = Inr (ret, st)"
    by blast
  from correspondences_of_run [OF run] run show ?thesis
    by blast
qed

theorem correspondences_untouched_witness:
  "initialize_doublesphere_model stub_externals two_rows ids18 board92 () 20 20 False vars0
     [(12, 1), (3, 2)] = Inr (False, final_two_rows) \<and>
   correspondences final_two_rows = two_rows \<and>
   map feature (undistort stub_externals (guess_camera stub_externals 20 20 1) five) =
     [(- 19 / 2, - 19 / 2), (- 17 / 2, - 19 / 2), (- 15 / 2, - 19 / 2), (- 13 / 2, - 19 / 2),
      (- 11 / 2, - 19 / 2)]"
proof -
  have "map feature (undistort stub_externals (guess_camera stub_externals 20 20 1) five) =
     [(- 19 / 2, - 19 / 2), (- 17 / 2, - 19 / 2), (- 15 / 2, - 19 / 2), (- 13 / 2, - 19 / 2),
      (- 11 / 2, - 19 / 2)]"
    by (simp add: undistort_map five_def grid_def guess_camera_def stub_externals_def
        hnormalized_def)
  moreover have len: "length ids18 \<le> length two_rows"
    by (simp add: ids18_def two_rows_def)
  moreover from correspondences_untouched [OF len, of stub_externals board92 "()" 20 20 False
      vars0 "[(12, 1), (3, 2)]"]
  obtain ret st
    where r: "initialize_doublesphere_model stub_externals two_rows ids18 board92 () 20 20
        False vars0 [(12, 1), (3, 2)] = Inr (ret, st)"
      and c: "correspondences st = two_rows"
    by blast
  from r have "st = final_two_rows"
    by (simp add: two_rows_run)
  with c have "correspondences final_two_rows = two_rows"
    by simp
  ultimately show ?thesis
    using two_rows_run by simp
qed

text \<open>
  C5. A candidate that reaches line 201 is recorded (minimal error, \<^verbatim>\<open>gamma0\<close>,
  \<^verbatim>\<open>success\<close>, rotation, position, focal length \<open>0.5 * gamma\<close>) exactly when its mean error
  is below the best so far and below 1000. Hence, for a \<open><\<close> that is
  transitive and irreflexive (as that of doubles is) and no more ids than
  correspondences, the function returns, and when \<^verbatim>\<open>success\<close> is set at the
  return the rotation, position and focal length are those of a candidate whose mean
  error is below \<open>DBL_MAX\<close> and 1000 and which no candidate with a mean error below 1000
  undercuts; when it is not set no candidate qualified and the three are the caller's.
\<close>

theorem best_candidate_recorded:
  fixes E :: "('d::{plus,minus,times,uminus,inverse,abs,ord}, 'p, 'g) externals"
  assumes trans: "\<forall>a b c :: 'd. a < b \<longrightarrow> b < c \<longrightarrow> a < c"
    and irrefl: "\<forall>a :: 'd. \<not> a < a"
    and len: "length ids \<le> length cs"
    and cands: "cands = candidates E p cols rows (id_to_corner_loop ids cs)
                  (chessboard_width board) [0..<chessboard_height board]
                  (initial_state E cs vars g)"
  shows "\<exists>ret st.
    initialize_doublesphere_model E cs ids board p cols rows verbose vars g = Inr (ret, st) \<and>
    (\<forall>gamma pose err n st0. MIN_CORNERS < n \<longrightarrow>
            update_best E gamma pose err n st0 =
              (if err / double_of_int E (int n) < min_reproj_error st0 \<and>
                  err / double_of_int E (int n) < double_lit E 1000
               then st0\<lparr>min_reproj_error := err / double_of_int E (int n), gamma0 := gamma,
                        success := True, rotation := CalibratedAbsolutePose.rotation pose,
                        position := CalibratedAbsolutePose.position pose,
                        focal_length := double_lit E 0.5 * gamma\<rparr>
               else st0)) \<and>
         (success st \<longrightarrow>
            (\<exists>(gamma, pose, avg) \<in> set cands.
               avg < DBL_MAX E \<and> avg < double_lit E 1000 \<and>
               min_reproj_error st = avg \<and>
               rotation st = CalibratedAbsolutePose.rotation pose \<and>
               position st = CalibratedAbsolutePose.position pose \<and>
               focal_length st = double_lit E 0.5 * gamma \<and>
               (\<forall>(gamma', pose', avg') \<in> set cands.
                  avg' < double_lit E 1000 \<longrightarrow> \<not> avg' < avg))) \<and>
         (\<not> success st \<longrightarrow>
            rotation st = rotation vars \<and> position st = position vars \<and>
            focal_length st = focal_length vars \<and>
            (\<forall>(gamma', pose', avg') \<in> set cands.
               \<not> (avg' < DBL_MAX E \<and> avg' < double_lit E 1000)))"
proof -
  from doublesphere_returns [OF len, of E board p cols rows verbose vars g] obtain ret st
    where run: "initialize_doublesphere_model E cs ids board p cols rows verbose vars g
                  = Inr (ret, st)"
    by blast
  from best_candidate_of_run [OF trans irrefl run cands] run show ?thesis
    by blast
qed

theorem best_candidate_recorded_witness:
  "initialize_doublesphere_model stub_externals two_rows ids18 board92 () 20 20 False vars0
     [(12, 1), (3, 2)] = Inr (False, final_two_rows) \<and>
   success final_two_rows \<and>
   (\<exists>(gamma, pose, avg) \<in> set two_rows_cands.
      min_reproj_error final_two_rows = avg \<and>
      rotation final_two_rows = CalibratedAbsolutePose.rotation pose \<and>
      position final_two_rows = CalibratedAbsolutePose.position pose \<and>
      focal_length final_two_rows = 1 / 2 * gamma \<and>
      (\<forall>(gamma', pose', avg') \<in>
          set two_rows_cands.
         avg' < 1000 \<longrightarrow> \<not> avg' < avg))"
proof -
  have s: "success final_two_rows"
    by (simp add: final_two_rows_def)
  have lit: "double_lit stub_externals = (\<lambda>x. x)"
    by (simp add: stub_externals_def)
  have tr: "\<forall>a b c :: real. a < b \<longrightarrow> b < c \<longrightarrow> a < c" and ir: "\<forall>a :: real. \<not> a < a"
    by auto
  have len: "length ids18 \<le> length two_rows"
    by (simp add: ids18_def two_rows_def)
  from best_candidate_recorded [OF tr ir len two_rows_candidates [symmetric], of False]
  obtain ret st
    where run: "initialize_doublesphere_model stub_externals two_rows ids18 board92 () 20 20
        False vars0 [(12, 1), (3, 2)] = Inr (ret, st)"
      and won: "success st \<longrightarrow>
        (\<exists>(gamma, pose, avg) \<in> set two_rows_cands.
           avg < DBL_MAX stub_externals \<and> avg < double_lit stub_externals 1000 \<and>
           min_reproj_error st = avg \<and>
           rotation st = CalibratedAbsolutePose.rotation pose \<and>
           position st = CalibratedAbsolutePose.position pose \<and>
           focal_length st = double_lit stub_externals 0.5 * gamma \<and>
           (\<forall>(gamma', pose', avg') \<in> set two_rows_cands.
              avg' < double_lit stub_externals 1000 \<longrightarrow> \<not> avg' < avg))"
    by blast
  from run have "st = final_two_rows"
    by (simp add: two_rows_run)
  with won s
  have "\<exists>(gamma, pose, avg) \<in>
            set two_rows_cands.
      avg < DBL_MAX stub_externals \<and> avg < double_lit stub_externals 1000 \<and>
      min_reproj_error final_two_rows = avg \<and>
      rotation final_two_rows = CalibratedAbsolutePose.rotation pose \<and>
      position final_two_rows = CalibratedAbsolutePose.position pose \<and>
      focal_length final_two_rows = double_lit stub_externals 0.5 * gamma \<and>
      (\<forall>(gamma', pose', avg') \<in>
          set two_rows_cands.
         avg' < double_lit stub_externals 1000 \<longrightarrow> \<not> avg' < avg)"
    by blast
  then have "\<exists>(gamma, pose, avg) \<in>
            set two_rows_cands.
      min_reproj_error final_two_rows = avg \<and>
      rotation final_two_rows = CalibratedAbsolutePose.rotation pose \<and>
      position final_two_rows = CalibratedAbsolutePose.position pose \<and>
      focal_length final_two_rows = 1 / 2 * gamma \<and>
      (\<forall>(gamma', pose', avg') \<in>
          set two_rows_cands.
         avg' < 1000 \<longrightarrow> \<not> avg' < avg)"
    unfolding lit by fastforce
  with s two_rows_run show ?thesis by blast
qed

text \<open>
  C2, as stated, fails: the test of line 200 is \<open>in_image > MIN_CORNERS\<close> with
  \<open>MIN_CORNERS = 8\<close>, so a row with exactly 9 reprojections inside the image is
  considered. Here row 0 has 9 of the 10 target points reprojected inside the image, and
  its candidate is recorded: \<^verbatim>\<open>success\<close> is set, the focal length is written and the
  function returns \<^verbatim>\<open>true\<close>.
\<close>

theorem in_image_nine_counterexample:
  "snd (snd (fst (estimate_row stub_externals () 20 20 1
      (initial_state stub_externals nine_plus_one vars0 [(10, 1)])))) = 9 \<and>
   \<not> success (initial_state stub_externals nine_plus_one vars0 [(10, 1)]) \<and>
   success (row_body stub_externals () 20 20 (id_to_corner_loop ids10 nine_plus_one) 9 0
      (initial_state stub_externals nine_plus_one vars0 [(10, 1)])) \<and>
   focal_length (row_body stub_externals () 20 20 (id_to_corner_loop ids10 nine_plus_one) 9 0
      (initial_state stub_externals nine_plus_one vars0 [(10, 1)])) = 1 / 2 \<and>
   focal_length (initial_state stub_externals nine_plus_one vars0 [(10, 1)]) = 7 \<and>
   initialize_doublesphere_model stub_externals nine_plus_one ids10 board92 () 20 20 False
     vars0 [(10, 1)] = Inr (True, final_nine_plus_one)"
  by (simp add: nine_plus_one_estimate nine_plus_one_row0 nine_plus_one_run)
    (simp add: initial_state_def final_nine_plus_one_def vars0_def)

text \<open>
  C2, amended. A row that has run the estimator is considered for recording, and its mean
  reprojection error computed, only when more than 8 reprojections lie inside the image:
  with \<open>in_image \<le> 8\<close> the row has no candidate and leaves the best candidate so far as
  it was (the row's state is the one the estimator's run left), with \<open>in_image > 8\<close> its
  candidate is the row's \<^verbatim>\<open>gamma\<close>, the pose and the mean error.
\<close>

theorem candidate_needs_nine_in_image:
  assumes "MIN_CORNERS < length (row_points E m tc r)"
    and "row_gamma E (row_points E m tc r) = Some gamma"
    and "estimate_row E p cols rows gamma st = ((pose, err, n), st1)"
  shows "(n \<le> 8 \<longrightarrow>
            row_candidate E p cols rows m tc r st = None \<and>
            row_body E p cols rows m tc r st = st1 \<and> best st1 = best st) \<and>
         (8 < n \<longrightarrow>
            row_candidate E p cols rows m tc r st =
              Some (gamma, pose, err / double_of_int E (int n)))"
proof -
  have "best st1 = best st"
    using best_estimate_row [of E p cols rows gamma st] assms(3) by simp
  then show ?thesis
    using assms
    by (simp add: row_candidate_def row_body_def update_best_skip MIN_CORNERS_def)
qed

theorem candidate_needs_nine_in_image_witness:
  "row_candidate stub_externals () 20 20 (id_to_corner_loop ids10 nine_plus_one) 9 0
      (initial_state stub_externals nine_plus_one vars0 [(10, 1)]) =
     Some (1, stub_calibrated_pose 1, 1) \<and>
   row_candidate stub_externals () 20 20 (id_to_corner_loop ids10 nine_plus_one) 9 0
      (initial_state stub_externals nine_plus_one vars0 [(10, 100)]) = None \<and>
   row_body stub_externals () 20 20 (id_to_corner_loop ids10 nine_plus_one) 9 0
      (initial_state stub_externals nine_plus_one vars0 [(10, 100)]) =
     (initial_state stub_externals nine_plus_one vars0 [(10, 100)])
        \<lparr>ransac_summary := stub_summary 10, rng := []\<rparr>"
proof -
  have len: "MIN_CORNERS <
      length (row_points stub_externals (id_to_corner_loop ids10 nine_plus_one) 9 0)"
    by (simp add: nine_plus_one_len MIN_CORNERS_def)
  show ?thesis
    using candidate_needs_nine_in_image [OF len nine_plus_one_gamma nine_plus_one_estimate]
      candidate_needs_nine_in_image [OF len nine_plus_one_gamma nine_plus_one_estimate_far]
    by (simp add: stub_externals_def)
qed

end
